theory Spec2Isabelle
  imports Main "HOL-Library.Char_ord" "HOL-Library.List_Lexorder"
begin

section \<open>Python strings\<close>

text \<open>
  A Python \<open>str\<close> is modelled as a \<^typ>\<open>string\<close>; one \<^typ>\<open>char\<close> stands for one code
  point below 256, so the model covers the Latin-1 strings. On that range
  \<open>str.isspace\<close> (which \<open>strip\<close>, \<open>lstrip\<close>, \<open>rstrip\<close> without argument and the
  regular-expression class \<open>\s\<close> follow) holds exactly for the code points
  9 to 13, 28 to 32, 133 and 160.
\<close>

definition NL :: char where
  "NL = CHR 0x0A"

definition isspace :: "char \<Rightarrow> bool" where
  "isspace c = (c \<in> set [CHR 0x20, CHR 0x0A, CHR 0x09, CHR 0x0D, CHR 0x0B, CHR 0x0C,
                           CHR 0x1C, CHR 0x1D, CHR 0x1E, CHR 0x1F, CHR 0x85, CHR 0xA0])"

definition lstrip :: "string \<Rightarrow> string" where
  "lstrip s = dropWhile isspace s"

definition rstrip :: "string \<Rightarrow> string" where
  "rstrip s = rev (dropWhile isspace (rev s))"

definition strip :: "string \<Rightarrow> string" where
  "strip s = lstrip (rstrip s)"

text \<open>\<open>s.strip(chars)\<close>, \<open>s.lstrip(chars)\<close> and \<open>s.rstrip(chars)\<close> with an explicit character set.\<close>

definition lstrip_chars :: "string \<Rightarrow> string \<Rightarrow> string" where
  "lstrip_chars chars s = dropWhile (\<lambda>c. c \<in> set chars) s"

definition rstrip_chars :: "string \<Rightarrow> string \<Rightarrow> string" where
  "rstrip_chars chars s = rev (dropWhile (\<lambda>c. c \<in> set chars) (rev s))"

definition strip_chars :: "string \<Rightarrow> string \<Rightarrow> string" where
  "strip_chars chars s = lstrip_chars chars (rstrip_chars chars s)"

text \<open>\<open>s.startswith(p)\<close> and \<open>s.endswith(p)\<close>.\<close>

fun startswith :: "string \<Rightarrow> string \<Rightarrow> bool" where
  "startswith s [] = True"
| "startswith [] (p # ps) = False"
| "startswith (c # cs) (p # ps) = (c = p \<and> startswith cs ps)"

definition endswith :: "string \<Rightarrow> string \<Rightarrow> bool" where
  "endswith s p = startswith (rev s) (rev p)"

text \<open>\<open>s.find(sub)\<close>: the lowest index where \<open>sub\<close> occurs, \<open>None\<close> for Python's \<open>-1\<close>.\<close>

fun find_sub :: "string \<Rightarrow> string \<Rightarrow> nat option" where
  "find_sub [] sub = (if sub = [] then Some 0 else None)"
| "find_sub (c # cs) sub =
     (if startswith (c # cs) sub then Some 0 else map_option Suc (find_sub cs sub))"

text \<open>\<open>sub in s\<close>.\<close>

definition contains :: "string \<Rightarrow> string \<Rightarrow> bool" where
  "contains s sub = (find_sub s sub \<noteq> None)"

text \<open>
  \<open>s.count(sub)\<close> for a non-empty \<open>sub\<close>: the number of non-overlapping occurrences,
  found left to right. The third argument counts the characters of the occurrence just
  found that are still to be skipped.
\<close>

fun count_from :: "string \<Rightarrow> string \<Rightarrow> nat \<Rightarrow> nat" where
  "count_from [] sub skip = 0"
| "count_from (c # cs) sub skip =
     (if skip > 0 then count_from cs sub (skip - 1)
      else if startswith (c # cs) sub then 1 + count_from cs sub (length sub - 1)
      else count_from cs sub 0)"

definition count_sub :: "string \<Rightarrow> string \<Rightarrow> nat" where
  "count_sub s sub = (if sub = [] then length s + 1 else count_from s sub 0)"

text \<open>\<open>s.replace(old, new, 1)\<close> and \<open>s.replace(old, new)\<close> for a non-empty \<open>old\<close>.\<close>

definition replace_first :: "string \<Rightarrow> string \<Rightarrow> string \<Rightarrow> string" where
  "replace_first s old new =
     (case find_sub s old of
        None \<Rightarrow> s
      | Some i \<Rightarrow> take i s @ new @ drop (i + length old) s)"

fun replace_from :: "string \<Rightarrow> string \<Rightarrow> string \<Rightarrow> nat \<Rightarrow> string" where
  "replace_from [] old new skip = []"
| "replace_from (c # cs) old new skip =
     (if skip > 0 then replace_from cs old new (skip - 1)
      else if startswith (c # cs) old then new @ replace_from cs old new (length old - 1)
      else c # replace_from cs old new 0)"

definition replace_all :: "string \<Rightarrow> string \<Rightarrow> string \<Rightarrow> string" where
  "replace_all s old new = replace_from s old new 0"

text \<open>\<open>s.split(sep)\<close> for a one-character separator, and \<open>sep.join(xs)\<close>.\<close>

fun split_on :: "char \<Rightarrow> string \<Rightarrow> string list" where
  "split_on sep [] = [[]]"
| "split_on sep (c # cs) =
     (if c = sep then [] # split_on sep cs
      else (case split_on sep cs of
              [] \<Rightarrow> [[c]]
            | w # ws \<Rightarrow> (c # w) # ws))"

fun join :: "string \<Rightarrow> string list \<Rightarrow> string" where
  "join sep [] = []"
| "join sep [x] = x"
| "join sep (x # y # ys) = x @ sep @ join sep (y # ys)"

text \<open>\<open>s.lower()\<close> on the Latin-1 range.\<close>

definition lower_char :: "char \<Rightarrow> char" where
  "lower_char c =
     (let n = (of_char c :: nat)
      in if (65 \<le> n \<and> n \<le> 90) \<or> (192 \<le> n \<and> n \<le> 222 \<and> n \<noteq> 215)
         then char_of (n + 32) else c)"

definition lower :: "string \<Rightarrow> string" where
  "lower s = map lower_char s"


section \<open>diff_editor: the search/replace engine\<close>

definition normalize_trailing_whitespace :: "string \<Rightarrow> string" where
  "normalize_trailing_whitespace text = join [NL] (map rstrip (split_on NL text))"

definition strip_all_whitespace :: "string \<Rightarrow> string" where
  "strip_all_whitespace text = join [NL] (map strip (split_on NL (strip text)))"

text \<open>
  \<open>line[: len(line) - len(line.lstrip())]\<close>: the leading whitespace of a line.
\<close>

definition leading_ws :: "string \<Rightarrow> string" where
  "leading_ws line = take (length line - length (lstrip line)) line"

text \<open>
  The two \<open>for line in ...: if line.strip(): indent = ...; break\<close> loops: the leading
  whitespace of the first line that is not blank, the empty string when there is none.
\<close>

fun detect_indent :: "string list \<Rightarrow> string" where
  "detect_indent [] = []"
| "detect_indent (line # rest) =
     (if strip line \<noteq> [] then leading_ws line else detect_indent rest)"

definition verify_anchor_match :: "string list \<Rightarrow> string list \<Rightarrow> bool" where
  "verify_anchor_match content_slice search_lines =
     (if length search_lines \<le> 2 then True
      else
        let total = length search_lines - 2;
            matches = length (filter
              (\<lambda>i. i < length content_slice \<and>
                   (let search_stripped = strip (search_lines ! i);
                        content_stripped = strip (content_slice ! i)
                    in search_stripped = content_stripped
                       \<or> contains content_stripped search_stripped
                       \<or> contains search_stripped content_stripped))
              [1 ..< length search_lines - 1])
        in if total = 0 then True else total \<le> 2 * matches)"

text \<open>
  Strategy 3, the sliding window over the fully stripped lines. The loop variable runs over
  \<open>range(len(content_lines) - search_line_count + 1)\<close>, which is empty when the difference
  is negative.
\<close>

definition window_match ::
  "string list \<Rightarrow> string \<Rightarrow> nat \<Rightarrow> nat \<Rightarrow> bool" where
  "window_match content_lines search_stripped search_line_count i =
     (join [NL] (map strip (take search_line_count (drop i content_lines))) = search_stripped)"

definition reindent :: "string \<Rightarrow> string \<Rightarrow> string \<Rightarrow> string" where
  "reindent original_indent replace_indent replace =
     (if replace_indent \<noteq> original_indent
      then join [NL] (map (\<lambda>line. if strip line \<noteq> []
                                   then original_indent @ drop (length replace_indent) line
                                   else line)
                          (split_on NL replace))
      else replace)"

definition splice_lines :: "string list \<Rightarrow> nat \<Rightarrow> nat \<Rightarrow> string \<Rightarrow> string" where
  "splice_lines content_lines start stop replace =
     join [NL] (take start content_lines @ split_on NL replace @ drop stop content_lines)"

definition anchor_hit ::
  "string list \<Rightarrow> string list \<Rightarrow> nat \<Rightarrow> string \<Rightarrow> string \<Rightarrow> nat \<Rightarrow> bool" where
  "anchor_hit content_lines search_lines_list search_line_count first_line last_line i =
     (strip (content_lines ! i) = first_line \<and>
      (let end_line = i + search_line_count
       in end_line \<le> length content_lines \<and>
          strip (content_lines ! (end_line - 1)) = last_line \<and>
          verify_anchor_match (take (end_line - i) (drop i content_lines))
            search_lines_list))"

definition apply_search_replace :: "string \<Rightarrow> string \<Rightarrow> string \<Rightarrow> string option" where
  "apply_search_replace content search replace =
     (if content = [] \<or> search = [] then None
      else if contains content search \<and> count_sub content search = 1
      then Some (replace_first content search replace)
      else
        let content_norm = normalize_trailing_whitespace content;
            search_norm = normalize_trailing_whitespace search
        in case find_sub content_norm search_norm of
             Some idx \<Rightarrow>
               let start_line = count_sub (take idx content_norm) [NL];
                   search_line_count = count_sub search_norm [NL] + 1
               in Some (splice_lines (split_on NL content) start_line
                          (start_line + search_line_count) replace)
           | None \<Rightarrow>
               let search_stripped = strip_all_whitespace search;
                   content_lines = split_on NL content;
                   search_line_count = length (split_on NL (strip search))
               in case find (window_match content_lines search_stripped search_line_count)
                            [0 ..< length content_lines + 1 - search_line_count] of
                    Some i \<Rightarrow>
                      let original_indent =
                            detect_indent (take search_line_count (drop i content_lines));
                          replace_indent = detect_indent (split_on NL replace);
                          replace' = reindent original_indent replace_indent replace
                      in Some (splice_lines content_lines i (i + search_line_count) replace')
                  | None \<Rightarrow>
                      let search_lines_list = split_on NL (strip search)
                      in if length search_lines_list \<ge> 3
                         then
                           let first_line = strip (hd search_lines_list);
                               last_line = strip (last search_lines_list)
                           in if first_line = [] \<or> last_line = [] then None
                              else (case find (anchor_hit content_lines search_lines_list
                                                 search_line_count first_line last_line)
                                              [0 ..< length content_lines] of
                                      Some i \<Rightarrow>
                                        Some (splice_lines content_lines i
                                                (i + search_line_count) replace)
                                    | None \<Rightarrow> None)
                         else None)"


section \<open>project_context: issues and the project context\<close>

text \<open>
  An issue is a dictionary with the keys \<open>type\<close>, \<open>file\<close>, \<open>message\<close> and \<open>severity\<close>, and
  for some types \<open>import\<close> or \<open>other_file\<close>; an absent key is \<open>None\<close>.
\<close>

record issue =
  issue_type :: string
  issue_file :: string
  issue_message :: string
  issue_severity :: string
  issue_import :: "string option"
  issue_other_file :: "string option"

record FileInfo =
  fi_path :: string
  fi_content :: string
  fi_size :: nat
  fi_language :: string
  fi_imports :: "string list"
  fi_exports :: "string list"
  fi_references :: "string list"
  fi_errors :: "string list"

text \<open>
  The two dictionaries of a context keep their insertion order, which the loops over them
  follow; they are association lists whose keys are distinct.
\<close>

record ProjectContext =
  base_dir :: string
  files :: "(string \<times> FileInfo) list"
  issues :: "issue list"
  dependency_graph :: "(string \<times> string list) list"


section \<open>pathlib and os.path on POSIX paths\<close>

text \<open>
  \<open>Path(p).parts\<close>: the root, when the path has one, and the components between the
  slashes; empty components and \<open>.\<close> are dropped when the path is built.
\<close>

definition path_root :: "string \<Rightarrow> string" where
  "path_root p =
     (if startswith p ''//'' \<and> \<not> startswith p ''///'' then ''//''
      else if startswith p ''/'' then ''/'' else [])"

definition path_components :: "string \<Rightarrow> string list" where
  "path_components p = filter (\<lambda>c. c \<noteq> [] \<and> c \<noteq> ''.'') (split_on (CHR ''/'') p)"

definition path_parts :: "string \<Rightarrow> string list" where
  "path_parts p = (if path_root p = [] then [] else [path_root p]) @ path_components p"

definition path_name :: "string \<Rightarrow> string" where
  "path_name p = (if path_components p = [] then [] else last (path_components p))"

text \<open>
  \<open>Path(p).suffix\<close>: with \<open>i = name.rfind('.')\<close>, the name from \<open>i\<close> on when
  \<open>0 < i < len(name) - 1\<close>, and the empty string otherwise. \<open>rfind_dot\<close> is \<open>None\<close> when the
  name has no dot.
\<close>

definition rfind_dot :: "string \<Rightarrow> nat option" where
  "rfind_dot name =
     (case find_sub (rev name) ''.'' of
        None \<Rightarrow> None
      | Some j \<Rightarrow> Some (length name - 1 - j))"

definition path_suffix :: "string \<Rightarrow> string" where
  "path_suffix p =
     (let name = path_name p
      in case rfind_dot name of
           None \<Rightarrow> []
         | Some i \<Rightarrow> if 0 < i \<and> i + 1 < length name then drop i name else [])"

text \<open>\<open>str(Path(p).parent)\<close> for a relative path.\<close>

definition path_parent :: "string \<Rightarrow> string" where
  "path_parent p =
     (let parts = path_parts p
      in if path_components p = [] then (if path_root p = [] then ''.'' else path_root p)
         else if butlast parts = [] then ''.''
         else if path_root p = [] then join ''/'' (butlast parts)
         else path_root p @ join ''/'' (butlast (path_components p)))"

text \<open>\<open>os.path.join(a, b)\<close> and \<open>os.path.normpath(p)\<close>.\<close>

definition os_path_join :: "string \<Rightarrow> string \<Rightarrow> string" where
  "os_path_join a b =
     (if startswith b ''/'' then b
      else if a = [] \<or> endswith a ''/'' then a @ b
      else a @ ''/'' @ b)"

fun normpath_comps :: "bool \<Rightarrow> string list \<Rightarrow> string list \<Rightarrow> string list" where
  "normpath_comps rooted new_comps [] = new_comps"
| "normpath_comps rooted new_comps (part # comps) =
     (if part = [] \<or> part = ''.'' then normpath_comps rooted new_comps comps
      else if part \<noteq> ''..'' \<or> (\<not> rooted \<and> new_comps = [])
              \<or> (new_comps \<noteq> [] \<and> last new_comps = ''..'')
      then normpath_comps rooted (new_comps @ [part]) comps
      else if new_comps \<noteq> [] then normpath_comps rooted (butlast new_comps) comps
      else normpath_comps rooted new_comps comps)"

definition os_path_normpath :: "string \<Rightarrow> string" where
  "os_path_normpath p =
     (if p = [] then ''.''
      else
        let r = path_root p;
            q = r @ join ''/'' (normpath_comps (r \<noteq> []) [] (split_on (CHR ''/'') p))
        in if q = [] then ''.'' else q)"


section \<open>Content cleaning\<close>

text \<open>\<open>clean_code_block\<close> of diff_editor.\<close>

definition is_blank :: "string \<Rightarrow> bool" where
  "is_blank line = (strip line = [])"

definition is_fence :: "string \<Rightarrow> bool" where
  "is_fence line = startswith (strip line) ''```''"

definition clean_code_block :: "string \<Rightarrow> string" where
  "clean_code_block text =
     (if text = [] then text
      else
        let lines = dropWhile is_blank (split_on NL text);
            lines' = (if lines \<noteq> [] \<and> is_fence (hd lines) then tl lines else lines)
        in join [NL] (rev (dropWhile is_fence (rev lines'))))"

text \<open>
  \<open>clean_file_content\<close> of builder. When the first line that is not blank opens a fence,
  the inner loop evaluates \<open>lines.strip()\<close> on the list \<open>lines\<close>, which is not empty there:
  a list has no attribute \<open>strip\<close>, and the call raises \<open>AttributeError\<close>.
  The byte-order mark U+FEFF lies outside the range of the model, so stripping it from the left
  leaves every string of the model as it is.
\<close>

datatype py_error = IndexError | AttributeError

definition MARKDOWN_EXTENSIONS :: "string list" where
  "MARKDOWN_EXTENSIONS = [''.md'', ''.mdx'', ''.markdown'', ''.rst'']"

definition lstrip_bom :: "string \<Rightarrow> string" where
  "lstrip_bom s = s"

definition end_with_newline :: "string \<Rightarrow> string" where
  "end_with_newline content =
     (let content' = strip_chars [NL] (lstrip_bom content)
      in if content' \<noteq> [] \<and> \<not> endswith content' [NL] then content' @ [NL] else content')"

definition clean_file_content :: "string \<Rightarrow> string \<Rightarrow> py_error + string" where
  "clean_file_content content filepath =
     (if content = [] then Inr content
      else
        let ext = lower (path_suffix filepath)
        in if ext \<in> set MARKDOWN_EXTENSIONS then Inr (end_with_newline content)
           else
             let lines = dropWhile is_blank (split_on NL content)
             in if lines \<noteq> [] \<and> is_fence (hd lines) then Inl AttributeError
                else if lines = [] then Inr []
                else Inr (end_with_newline (join [NL] lines)))"


section \<open>project_context: resolving imports\<close>

definition BSL :: char where
  "BSL = CHR 0x5C"

definition file_keys :: "ProjectContext \<Rightarrow> string list" where
  "file_keys ctx = map fst (files ctx)"

text \<open>\<open>p in ctx.files\<close> and \<open>any(f.startswith(prefix) for f in ctx.files)\<close>.\<close>

definition in_files :: "ProjectContext \<Rightarrow> string \<Rightarrow> bool" where
  "in_files ctx p = (p \<in> set (file_keys ctx))"

definition any_file_startswith :: "ProjectContext \<Rightarrow> string \<Rightarrow> bool" where
  "any_file_startswith ctx prefix = list_ex (\<lambda>f. startswith f prefix) (file_keys ctx)"

definition PYTHON_STDLIB :: "string list" where
  "PYTHON_STDLIB =
     [''os'', ''sys'', ''re'', ''json'', ''math'', ''datetime'', ''pathlib'', ''typing'',
      ''collections'', ''functools'', ''itertools'', ''subprocess'', ''asyncio'',
      ''logging'', ''unittest'', ''dataclasses'', ''abc'', ''hashlib'', ''secrets'',
      ''uuid'', ''enum'', ''copy'', ''io'', ''contextlib'', ''time'', ''random'',
      ''string'', ''textwrap'', ''shutil'', ''tempfile'', ''glob'', ''argparse'',
      ''configparser'', ''sqlite3'', ''csv'', ''http'', ''urllib'', ''email'', ''html'',
      ''xml'', ''base64'', ''struct'', ''socket'', ''threading'', ''multiprocessing'',
      ''concurrent'', ''ast'', ''inspect'', ''traceback'', ''warnings'', ''pdb'',
      ''profile'', ''timeit'', ''cProfile'', ''pickle'', ''shelve'', ''marshal'',
      ''codecs'', ''locale'', ''gettext'', ''unicodedata'', ''decimal'', ''fractions'',
      ''operator'', ''array'', ''heapq'', ''bisect'', ''queue'', ''types'', ''weakref'',
      ''gc'', ''dis'', ''token'', ''tokenize'', ''pprint'', ''platform'', ''signal'',
      ''fnmatch'', ''stat'', ''binascii'', ''tomllib'', ''zipfile'', ''tarfile'', ''gzip'',
      ''bz2'', ''lzma'', ''zlib'']"

definition PYTHON_THIRD_PARTY :: "string list" where
  "PYTHON_THIRD_PARTY =
     [''flask'', ''django'', ''fastapi'', ''requests'', ''httpx'', ''aiohttp'',
      ''sqlalchemy'', ''pydantic'', ''celery'', ''redis'', ''pymongo'', ''psycopg2'',
      ''mysql'', ''boto3'', ''botocore'', ''numpy'', ''pandas'', ''scipy'', ''matplotlib'',
      ''sklearn'', ''torch'', ''tensorflow'', ''pytest'', ''nose'', ''mock'', ''faker'',
      ''factory'', ''rich'', ''click'', ''typer'', ''fire'', ''prompt_toolkit'', ''yaml'',
      ''toml'', ''dotenv'', ''decouple'', ''environ'', ''PIL'', ''cv2'', ''jinja2'',
      ''mako'', ''markupsafe'', ''werkzeug'', ''gunicorn'', ''uvicorn'', ''starlette'',
      ''marshmallow'', ''wtforms'', ''babel'', ''alembic'', ''setuptools'',
      ''pkg_resources'', ''pip'', ''wheel'', ''bs4'', ''beautifulsoup4'', ''scrapy'',
      ''selenium'', ''lxml'', ''cryptography'', ''jwt'', ''passlib'', ''bcrypt'',
      ''flask_sqlalchemy'', ''flask_migrate'', ''flask_cors'', ''flask_login'',
      ''flask_wtf'', ''flask_restful'', ''celery'', ''kombu'', ''amqp'', ''stripe'',
      ''twilio'', ''sendgrid'', ''pygments'', ''colorama'', ''termcolor'', ''tqdm'',
      ''alive_progress'', ''pillow'', ''imageio'', ''scikit_image'']"

definition GO_STDLIB :: "string list" where
  "GO_STDLIB =
     [''fmt'', ''os'', ''io'', ''net'', ''log'', ''strings'', ''strconv'', ''errors'',
      ''context'', ''sync'', ''time'', ''math'', ''sort'', ''bytes'', ''bufio'', ''path'',
      ''filepath'', ''regexp'', ''encoding'', ''crypto'', ''database'', ''html'', ''mime'',
      ''testing'']"

definition is_external_python :: "string \<Rightarrow> bool" where
  "is_external_python module =
     (let top = hd (split_on (CHR ''.'') module);
          top_normalized = replace_all top ''-'' ''_''
      in top \<in> set PYTHON_STDLIB
         \<or> top \<in> set PYTHON_THIRD_PARTY
         \<or> top_normalized \<in> set PYTHON_THIRD_PARTY)"

text \<open>
  The loop \<open>for i in range(len(parts), 0, -1)\<close> of \<open>resolve_python_import\<close>: the last
  argument is \<open>i\<close>, and \<open>0\<close> is the end of the loop.
\<close>

fun resolve_python_from :: "ProjectContext \<Rightarrow> string list \<Rightarrow> nat \<Rightarrow> string option" where
  "resolve_python_from ctx parts 0 = None"
| "resolve_python_from ctx parts (Suc i) =
     (let module_path = join ''/'' (take (Suc i) parts)
      in if in_files ctx (module_path @ ''.py'') then Some (module_path @ ''.py'')
         else if in_files ctx (module_path @ ''/__init__.py'')
         then Some (module_path @ ''/__init__.py'')
         else if any_file_startswith ctx (module_path @ ''/'')
         then Some (rstrip_chars ''/'' (module_path @ ''/''))
         else resolve_python_from ctx parts i)"

definition resolve_python_import :: "string \<Rightarrow> string \<Rightarrow> ProjectContext \<Rightarrow> string option" where
  "resolve_python_import import_path from_file ctx =
     (let parts = split_on (CHR ''.'') import_path
      in resolve_python_from ctx parts (length parts))"

definition resolve_js_import :: "string \<Rightarrow> string \<Rightarrow> ProjectContext \<Rightarrow> string option" where
  "resolve_js_import import_path from_file ctx =
     (if \<not> startswith import_path ''.'' then None
      else
        let from_dir = path_parent from_file;
            resolved = replace_all (os_path_normpath (os_path_join from_dir import_path))
                         [BSL] ''/''
        in find (in_files ctx)
             (map (\<lambda>ext. resolved @ ext)
                [[], ''.js'', ''.ts'', ''.jsx'', ''.tsx'',
                 ''/index.js'', ''/index.ts'', ''/index.jsx'', ''/index.tsx'']))"

definition resolve_import :: "string \<Rightarrow> string \<Rightarrow> ProjectContext \<Rightarrow> string option" where
  "resolve_import import_path from_file ctx =
     (case map_of (files ctx) from_file of
        None \<Rightarrow> None
      | Some info \<Rightarrow>
          if fi_language info = ''python''
          then resolve_python_import import_path from_file ctx
          else if fi_language info \<in> set [''javascript'', ''typescript'']
          then resolve_js_import import_path from_file ctx
          else if fi_language info = ''rust''
          then (if startswith import_path ''crate::''
                then
                  let rust_path = replace_all (replace_all import_path ''crate::'' ''src/'')
                                    ''::'' ''/''
                  in find (in_files ctx) [rust_path @ ''.rs'', rust_path @ ''/mod.rs'']
                else None)
          else if fi_language info = ''go''
          then
            let local_path = last (split_on (CHR ''/'') import_path)
            in find (\<lambda>fpath. endswith fpath ''.go'' \<and> contains fpath local_path)
                 (file_keys ctx)
          else None)"

definition is_local_python_import :: "string \<Rightarrow> ProjectContext \<Rightarrow> bool" where
  "is_local_python_import import_path ctx =
     (if is_external_python import_path then False
      else if startswith import_path ''.'' then True
      else
        let top_level = hd (split_on (CHR ''.'') import_path)
        in if in_files ctx (top_level @ ''.py'') then True
           else if in_files ctx (top_level @ ''/__init__.py'') then True
           else if any_file_startswith ctx (top_level @ ''/'') then True
           else False)"

definition is_local_import :: "string \<Rightarrow> string \<Rightarrow> ProjectContext \<Rightarrow> bool" where
  "is_local_import imp language ctx =
     (if language = ''python'' then is_local_python_import imp ctx
      else if language \<in> set [''javascript'', ''typescript''] then startswith imp ''.''
      else if language = ''rust'' then startswith imp ''crate::''
      else if language = ''go'' then \<not> (contains imp ''.'' \<or> imp \<in> set GO_STDLIB)
      else False)"

text \<open>\<open>d[k] = v\<close> on an insertion-ordered dictionary.\<close>

fun dict_set :: "'k \<Rightarrow> 'v \<Rightarrow> ('k \<times> 'v) list \<Rightarrow> ('k \<times> 'v) list" where
  "dict_set k v [] = [(k, v)]"
| "dict_set k v ((k', v') # rest) =
     (if k = k' then (k, v) # rest else (k', v') # dict_set k v rest)"

text \<open>
  The inner loop of \<open>build_dependency_graph\<close>; \<open>if resolved and ...\<close> also skips an empty
  string. The list \<open>deps\<close> has no duplicates, so it serves as the set \<open>seen\<close> too.
\<close>

fun collect_deps :: "ProjectContext \<Rightarrow> string \<Rightarrow> string list \<Rightarrow> string list \<Rightarrow> string list" where
  "collect_deps ctx fpath [] deps = deps"
| "collect_deps ctx fpath (imp # imps) deps =
     (case resolve_import imp fpath ctx of
        None \<Rightarrow> collect_deps ctx fpath imps deps
      | Some resolved \<Rightarrow>
          if resolved \<noteq> [] \<and> resolved \<notin> set deps
          then collect_deps ctx fpath imps (deps @ [resolved])
          else collect_deps ctx fpath imps deps)"

definition build_dependency_graph :: "ProjectContext \<Rightarrow> (string \<times> string list) list" where
  "build_dependency_graph ctx =
     fold (\<lambda>(fpath, info) graph. dict_set fpath (collect_deps ctx fpath (fi_imports info) []) graph)
       (files ctx) []"


section \<open>project_context: cross-reference validation\<close>

definition NON_IMPORTABLE_FILES :: "string list" where
  "NON_IMPORTABLE_FILES =
     [''.gitignore'', ''.gitattributes'', ''.gitmodules'', ''.dockerignore'',
      ''.editorconfig'', ''.prettierrc'', ''.prettierignore'', ''.eslintrc'',
      ''.eslintrc.js'', ''.eslintrc.json'', ''.eslintignore'', ''.stylelintrc'',
      ''.babelrc'', ''.browserslistrc'', ''.npmrc'', ''.nvmrc'', ''.flake8'',
      ''.pylintrc'', ''.mypy.ini'', ''.coveragerc'', ''.env'', ''.env.example'',
      ''.env.local'', ''.env.development'', ''.env.production'', ''.env.test'',
      ''Dockerfile'', ''docker-compose.yml'', ''docker-compose.yaml'', ''Makefile'',
      ''Procfile'', ''Vagrantfile'', ''LICENSE'', ''LICENSE.md'', ''LICENSE.txt'',
      ''README.md'', ''README.rst'', ''README.txt'', ''README'', ''CHANGELOG.md'',
      ''CHANGELOG.txt'', ''CONTRIBUTING.md'', ''pytest.ini'', ''setup.cfg'', ''tox.ini'',
      ''pyproject.toml'', ''setup.py'', ''MANIFEST.in'', ''package-lock.json'',
      ''yarn.lock'', ''pnpm-lock.yaml'', ''Cargo.lock'', ''go.sum'', ''tsconfig.json'',
      ''jsconfig.json'', ''webpack.config.js'', ''vite.config.js'', ''vite.config.ts'',
      ''rollup.config.js'', ''postcss.config.js'', ''tailwind.config.js'',
      ''tailwind.config.ts'', ''jest.config.js'', ''jest.config.ts'', ''vitest.config.ts'',
      ''babel.config.js'', ''babel.config.json'', ''next.config.js'', ''next.config.mjs'',
      ''nuxt.config.js'', ''nuxt.config.ts'', ''svelte.config.js'', ''vercel.json'',
      ''netlify.toml'', ''fly.toml'', ''requirements.txt'', ''requirements-dev.txt'',
      ''constraints.txt'', ''Pipfile'', ''Pipfile.lock'', ''poetry.lock'']"

definition ENTRY_POINT_EXACT :: "string list" where
  "ENTRY_POINT_EXACT =
     [''main.py'', ''src/main.py'', ''app.py'', ''src/app.py'', ''index.js'', ''index.ts'',
      ''index.mjs'', ''src/index.js'', ''src/index.ts'', ''src/index.mjs'', ''manage.py'',
      ''wsgi.py'', ''asgi.py'', ''src/wsgi.py'', ''src/asgi.py'', ''main.go'',
      ''cmd/main.go'', ''main.rs'', ''src/main.rs'', ''src/lib.rs'', ''setup.py'',
      ''conftest.py'', ''cli.py'', ''src/cli.py'', ''server.py'', ''src/server.py'',
      ''run.py'', ''src/run.py'', ''worker.py'', ''src/worker.py'', ''bot.py'',
      ''src/bot.py'']"

definition NON_IMPORTABLE_EXTENSIONS :: "string list" where
  "NON_IMPORTABLE_EXTENSIONS =
     [''.json'', ''.yaml'', ''.yml'', ''.toml'', ''.md'', ''.rst'', ''.txt'', ''.css'',
      ''.scss'', ''.sass'', ''.less'', ''.html'', ''.htm'', ''.svg'', ''.xml'', ''.sql'',
      ''.sh'', ''.bash'', ''.ps1'', ''.bat'', ''.cmd'', ''.env'', ''.cfg'', ''.ini'',
      ''.conf'', ''.lock'', ''.sum'', ''.png'', ''.jpg'', ''.jpeg'', ''.gif'', ''.ico'',
      ''.webp'', ''.woff'', ''.woff2'', ''.ttf'', ''.eot'', ''.map'', ''.min.js'',
      ''.min.css'']"

definition is_test_path :: "string \<Rightarrow> string \<Rightarrow> bool" where
  "is_test_path fpath filename =
     (startswith fpath ''test''
      \<or> startswith fpath ''tests/''
      \<or> contains fpath ''/test_''
      \<or> contains fpath ''/tests/''
      \<or> startswith filename ''test_''
      \<or> endswith filename ''_test.py''
      \<or> endswith filename ''_test.go''
      \<or> endswith filename ''.test.js''
      \<or> endswith filename ''.test.ts''
      \<or> endswith filename ''.spec.js''
      \<or> endswith filename ''.spec.ts'')"

definition is_orphan_candidate :: "string \<Rightarrow> bool" where
  "is_orphan_candidate fpath =
     (let filename = path_name fpath;
          ext = lower (path_suffix fpath)
      in if startswith filename ''.'' then False
         else if filename \<in> set NON_IMPORTABLE_FILES then False
         else if ext \<in> set NON_IMPORTABLE_EXTENSIONS then False
         else if fpath \<in> set ENTRY_POINT_EXACT then False
         else if filename \<in> set [''conftest.py'', ''__init__.py'', ''__main__.py'',
                                   ''manage.py'', ''wsgi.py'', ''asgi.py'']
         then False
         else if is_test_path fpath filename then False
         else if list_ex (\<lambda>part. part \<in> set [''templates'', ''static'', ''public'', ''assets'',
                                               ''media'', ''migrations'', ''fixtures'', ''seeds'',
                                               ''locales'', ''i18n''])
                   (path_parts fpath)
         then False
         else True)"

fun get_python_base_from :: "ProjectContext \<Rightarrow> string \<Rightarrow> string list \<Rightarrow> nat \<Rightarrow> string" where
  "get_python_base_from ctx import_path parts 0 = import_path"
| "get_python_base_from ctx import_path parts (Suc i) =
     (let candidate = take (Suc i) parts;
          module_path = join ''/'' candidate
      in if in_files ctx (module_path @ ''.py'') then join ''.'' candidate
         else if in_files ctx (module_path @ ''/__init__.py'') then join ''.'' candidate
         else if any_file_startswith ctx (module_path @ ''/'') then join ''.'' candidate
         else get_python_base_from ctx import_path parts i)"

definition get_python_base_module :: "string \<Rightarrow> ProjectContext \<Rightarrow> string" where
  "get_python_base_module import_path ctx =
     (let parts = split_on (CHR ''.'') import_path
      in get_python_base_from ctx import_path parts (length parts))"

text \<open>The first \<open>continue\<close> of the import loop: the import is external by its spelling.\<close>

definition skips_external :: "string \<Rightarrow> string \<Rightarrow> bool" where
  "skips_external language imp =
     (if language = ''python'' then is_external_python imp
      else if language \<in> set [''javascript'', ''typescript''] then \<not> startswith imp ''.''
      else if language = ''go'' then contains imp ''.'' \<or> imp \<in> set GO_STDLIB
      else if language = ''rust'' then startswith imp ''std::'' \<or> \<not> contains imp ''::''
      else False)"

definition missing_import_issue :: "string \<Rightarrow> string \<Rightarrow> issue" where
  "missing_import_issue fpath imp =
     \<lparr> issue_type = ''missing_import'',
       issue_file = fpath,
       issue_message = ''`'' @ fpath @ ''` imports `'' @ imp @ ''` but no matching file found'',
       issue_severity = ''error'',
       issue_import = Some imp,
       issue_other_file = None \<rparr>"

text \<open>
  The body of the loop over the imports of one file. The state is the set
  \<open>checked_modules\<close> of this file, the set \<open>seen_issues\<close> and the list \<open>issues\<close>.
\<close>

definition check_import ::
  "ProjectContext \<Rightarrow> string \<Rightarrow> FileInfo \<Rightarrow> string
     \<Rightarrow> string set \<times> (string \<times> string) set \<times> issue list
     \<Rightarrow> string set \<times> (string \<times> string) set \<times> issue list" where
  "check_import ctx fpath info imp st =
     (case st of (checked_modules, seen_issues, acc) \<Rightarrow>
        if skips_external (fi_language info) imp then st
        else if \<not> is_local_import imp (fi_language info) ctx then st
        else if fi_language info = ''python''
                \<and> get_python_base_module imp ctx \<in> checked_modules
        then st
        else
          let checked_modules' =
                (if fi_language info = ''python''
                 then insert (get_python_base_module imp ctx) checked_modules
                 else checked_modules)
          in if resolve_import imp fpath ctx = None \<and> (fpath, imp) \<notin> seen_issues
             then (checked_modules', insert (fpath, imp) seen_issues,
                   acc @ [missing_import_issue fpath imp])
             else (checked_modules', seen_issues, acc))"

text \<open>The body of the loop over the files: \<open>checked_modules\<close> starts empty for each file.\<close>

definition check_file ::
  "ProjectContext \<Rightarrow> string \<times> FileInfo \<Rightarrow> (string \<times> string) set \<times> issue list
     \<Rightarrow> (string \<times> string) set \<times> issue list" where
  "check_file ctx entry st =
     (case entry of (fpath, info) \<Rightarrow>
        case st of (seen_issues, acc) \<Rightarrow>
          snd (fold (check_import ctx fpath info) (fi_imports info) ({}, seen_issues, acc)))"

definition missing_import_issues :: "ProjectContext \<Rightarrow> issue list" where
  "missing_import_issues ctx = snd (fold (check_file ctx) (files ctx) ({}, []))"

definition orphan_issue :: "string \<Rightarrow> issue" where
  "orphan_issue fpath =
     \<lparr> issue_type = ''orphan_file'',
       issue_file = fpath,
       issue_message = ''`'' @ fpath @ ''` is not imported by any other file'',
       issue_severity = ''warning'',
       issue_import = None,
       issue_other_file = None \<rparr>"

definition orphan_issues :: "ProjectContext \<Rightarrow> issue list" where
  "orphan_issues ctx =
     (let all_deps = concat (map snd (dependency_graph ctx))
      in map orphan_issue
           (filter (\<lambda>fpath. fpath \<notin> set all_deps \<and> is_orphan_candidate fpath)
              (file_keys ctx)))"


text \<open>
  \<open>exp.split()\<close> splits at runs of whitespace and drops empty words; \<open>exp.split()[-1]\<close>
  raises \<open>IndexError\<close> when \<open>exp\<close> has no word.
\<close>

fun words_from :: "string \<Rightarrow> string \<Rightarrow> string list" where
  "words_from cur [] = (if cur = [] then [] else [cur])"
| "words_from cur (c # cs) =
     (if isspace c then (if cur = [] then words_from [] cs else cur # words_from [] cs)
      else words_from (cur @ [c]) cs)"

definition split_ws :: "string \<Rightarrow> string list" where
  "split_ws s = words_from [] s"

definition last_word :: "string \<Rightarrow> py_error + string" where
  "last_word exp = (case split_ws exp of [] \<Rightarrow> Inl IndexError | w # ws \<Rightarrow> Inr (last (w # ws)))"

definition duplicate_issue :: "string \<Rightarrow> string \<Rightarrow> string \<Rightarrow> issue" where
  "duplicate_issue name fpath other =
     \<lparr> issue_type = ''duplicate_definition'',
       issue_file = fpath,
       issue_message = ''`'' @ name @ ''` defined in both `'' @ fpath @ ''` and `'' @ other @ ''`'',
       issue_severity = ''warning'',
       issue_import = None,
       issue_other_file = Some other \<rparr>"

definition EXPECTED_DUPLICATES :: "string list" where
  "EXPECTED_DUPLICATES =
     [''main'', ''setup'', ''run'', ''start'', ''init'', ''create_app'', ''get'', ''post'',
      ''put'', ''delete'', ''index'', ''home'', ''health'']"

text \<open>
  The loop over the exports of one file. The state is the dictionary \<open>all_exports\<close> and
  the list of issues; both \<open>continue\<close> statements leave the dictionary as it is.
\<close>

fun check_exports ::
  "string \<Rightarrow> string list \<Rightarrow> (string \<times> string) list \<times> issue list
     \<Rightarrow> py_error + (string \<times> string) list \<times> issue list" where
  "check_exports fpath [] st = Inr st"
| "check_exports fpath (exp # exps) (all_exports, acc) =
     (case last_word exp of
        Inl e \<Rightarrow> Inl e
      | Inr name \<Rightarrow>
          (case map_of all_exports name of
             Some other \<Rightarrow>
               if other \<noteq> fpath
               then (if contains (lower fpath) ''test'' \<or> contains (lower other) ''test''
                        \<or> startswith name ''_''
                     then check_exports fpath exps (all_exports, acc)
                     else if name \<in> set EXPECTED_DUPLICATES
                     then check_exports fpath exps (all_exports, acc)
                     else check_exports fpath exps
                            (dict_set name fpath all_exports,
                             acc @ [duplicate_issue name fpath other]))
               else check_exports fpath exps (dict_set name fpath all_exports, acc)
           | None \<Rightarrow> check_exports fpath exps (dict_set name fpath all_exports, acc)))"

fun check_all_exports ::
  "(string \<times> FileInfo) list \<Rightarrow> (string \<times> string) list \<times> issue list
     \<Rightarrow> py_error + (string \<times> string) list \<times> issue list" where
  "check_all_exports [] st = Inr st"
| "check_all_exports ((fpath, info) # rest) st =
     (case check_exports fpath (fi_exports info) st of
        Inl e \<Rightarrow> Inl e
      | Inr st' \<Rightarrow> check_all_exports rest st')"

definition duplicate_issues :: "ProjectContext \<Rightarrow> py_error + issue list" where
  "duplicate_issues ctx = map_sum id snd (check_all_exports (files ctx) ([], []))"

definition validate_cross_references :: "ProjectContext \<Rightarrow> py_error + issue list" where
  "validate_cross_references ctx =
     (case duplicate_issues ctx of
        Inl e \<Rightarrow> Inl e
      | Inr dups \<Rightarrow> Inr (missing_import_issues ctx @ orphan_issues ctx @ dups))"


section \<open>project_context: the scanner\<close>

text \<open>
  The syntax tree of a Python file as \<open>ast.walk\<close> lists it: the nodes that
  \<open>analyze_python\<close> tells apart, with the names they carry.
\<close>

datatype py_node =
    Import "string list"
  | ImportFrom "string option" "string list"
  | FunctionDef string
  | AsyncFunctionDef string
  | ClassDef string
  | OtherNode

text \<open>
  The analyzers call the parser of the \<open>ast\<close> module and the matcher of the \<open>re\<close> module.
  Both are libraries, and their results on a file content are taken as given:
  \<open>ast_walk\<close> is \<open>ast.walk(ast.parse(content))\<close>, or the text of the \<open>SyntaxError\<close>;
  the other fields are the groups that \<open>re.findall\<close>, \<open>re.finditer\<close> and \<open>re.search\<close>
  yield for the pattern of the analyzer (\<open>None\<close> for a group that took no part in the
  match, or for a search without match).
\<close>

record analysis_env =
  ast_walk :: "string \<Rightarrow> string + py_node list"
  re_path_refs :: "string \<Rightarrow> string list"
  re_js_imports :: "string \<Rightarrow> (string option \<times> string option) list"
  re_js_exports :: "string \<Rightarrow> string list"
  re_rust_uses :: "string \<Rightarrow> string list"
  re_rust_pubs :: "string \<Rightarrow> string list"
  re_rust_mods :: "string \<Rightarrow> string list"
  re_go_block :: "string \<Rightarrow> string option"
  re_go_imports :: "string \<Rightarrow> string list"
  re_go_exports :: "string \<Rightarrow> string list"

fun visit_node :: "py_node \<Rightarrow> FileInfo \<Rightarrow> FileInfo" where
  "visit_node (Import names) info = info\<lparr> fi_imports := fi_imports info @ names \<rparr>"
| "visit_node (ImportFrom module_opt names) info =
     (let module = (case module_opt of None \<Rightarrow> [] | Some m \<Rightarrow> m)
      in info\<lparr> fi_imports :=
           fi_imports info @ (if module \<noteq> [] then [module] else [])
             @ map (\<lambda>name. if module \<noteq> [] then module @ ''.'' @ name else name) names \<rparr>)"
| "visit_node (FunctionDef name) info = info\<lparr> fi_exports := fi_exports info @ [''def '' @ name] \<rparr>"
| "visit_node (AsyncFunctionDef name) info =
     info\<lparr> fi_exports := fi_exports info @ [''def '' @ name] \<rparr>"
| "visit_node (ClassDef name) info = info\<lparr> fi_exports := fi_exports info @ [''class '' @ name] \<rparr>"
| "visit_node OtherNode info = info"

definition analyze_python :: "analysis_env \<Rightarrow> FileInfo \<Rightarrow> FileInfo" where
  "analyze_python env info =
     (case ast_walk env (fi_content info) of
        Inl e \<Rightarrow> info\<lparr> fi_errors := fi_errors info @ [''Syntax error: '' @ e] \<rparr>
      | Inr nodes \<Rightarrow>
          (fold visit_node nodes info)\<lparr> fi_references := re_path_refs env (fi_content info) \<rparr>)"

definition analyze_javascript :: "analysis_env \<Rightarrow> FileInfo \<Rightarrow> FileInfo" where
  "analyze_javascript env info =
     info\<lparr> fi_imports := fi_imports info
             @ filter (\<lambda>module. module \<noteq> [])
                 (map (\<lambda>(g1, g2). case g1 of
                                     Some m \<Rightarrow> (if m \<noteq> [] then m
                                                else (case g2 of None \<Rightarrow> [] | Some m2 \<Rightarrow> m2))
                                   | None \<Rightarrow> (case g2 of None \<Rightarrow> [] | Some m2 \<Rightarrow> m2))
                    (re_js_imports env (fi_content info))),
           fi_exports := fi_exports info @ re_js_exports env (fi_content info) \<rparr>"

definition analyze_rust :: "analysis_env \<Rightarrow> FileInfo \<Rightarrow> FileInfo" where
  "analyze_rust env info =
     info\<lparr> fi_imports := fi_imports info @ re_rust_uses env (fi_content info),
           fi_exports := fi_exports info @ re_rust_pubs env (fi_content info),
           fi_references := fi_references info @ re_rust_mods env (fi_content info) \<rparr>"

definition analyze_go :: "analysis_env \<Rightarrow> FileInfo \<Rightarrow> FileInfo" where
  "analyze_go env info =
     info\<lparr> fi_imports := fi_imports info
             @ (case re_go_block env (fi_content info) of
                  None \<Rightarrow> []
                | Some block \<Rightarrow>
                    filter (\<lambda>line. line \<noteq> [])
                      (map (\<lambda>line. strip_chars [CHR 0x22] (strip line)) (split_on NL block)))
             @ re_go_imports env (fi_content info),
           fi_exports := fi_exports info @ re_go_exports env (fi_content info) \<rparr>"


definition ext_map :: "(string \<times> string) list" where
  "ext_map =
     [(''.py'', ''python''), (''.js'', ''javascript''), (''.jsx'', ''javascript''),
      (''.mjs'', ''javascript''), (''.ts'', ''typescript''), (''.tsx'', ''typescript''),
      (''.rs'', ''rust''), (''.go'', ''go''), (''.java'', ''java''), (''.rb'', ''ruby''),
      (''.html'', ''html''), (''.htm'', ''html''), (''.css'', ''css''), (''.scss'', ''css''),
      (''.json'', ''json''), (''.yaml'', ''yaml''), (''.yml'', ''yaml''), (''.toml'', ''toml''),
      (''.md'', ''markdown''), (''.sql'', ''sql''), (''.sh'', ''bash''), (''.bash'', ''bash''),
      (''.ps1'', ''powershell''), (''.txt'', ''text'')]"

definition detect_language :: "string \<Rightarrow> string" where
  "detect_language filepath =
     (case map_of ext_map (lower (path_suffix filepath)) of
        None \<Rightarrow> ''unknown''
      | Some language \<Rightarrow> language)"

definition IGNORE_DIRS :: "string list" where
  "IGNORE_DIRS =
     [''.git'', ''.venv'', ''venv'', ''node_modules'', ''__pycache__'', ''.mypy_cache'',
      ''.pytest_cache'', ''.tox'', ''dist'', ''build'', ''.egg-info'', ''.eggs'',
      ''target'', ''bin'', ''obj'']"

definition IGNORE_FILES :: "string list" where
  "IGNORE_FILES = [''.DS_Store'', ''Thumbs.db'', ''.build_progress.json'']"

definition MAX_FILE_SIZE :: nat where
  "MAX_FILE_SIZE = 100000"

text \<open>
  What the scan reads from the file system, one entry for each file below the root in the
  order of \<open>os.walk\<close>: the directories from the root down to the file, the file name,
  whether the ignore patterns match its relative path, its size (\<open>None\<close> when \<open>stat\<close>
  raises \<open>PermissionError\<close>) and its decoded content (\<open>None\<close> when reading raises
  \<open>PermissionError\<close> or no encoding decodes it). The root is the result of
  \<open>find_project_root\<close>.
\<close>

record dir_entry =
  de_dirs :: "string list"
  de_filename :: string
  de_ignored :: bool
  de_size :: "nat option"
  de_content :: "string option"

definition empty_file_issue :: "string \<Rightarrow> issue" where
  "empty_file_issue rel_path =
     \<lparr> issue_type = ''empty_file'',
       issue_file = rel_path,
       issue_message = ''File is empty: '' @ rel_path,
       issue_severity = ''warning'',
       issue_import = None,
       issue_other_file = None \<rparr>"

definition analyze :: "analysis_env \<Rightarrow> FileInfo \<Rightarrow> FileInfo" where
  "analyze env info =
     (if fi_language info = ''python'' then analyze_python env info
      else if fi_language info \<in> set [''javascript'', ''typescript'']
      then analyze_javascript env info
      else if fi_language info = ''rust'' then analyze_rust env info
      else if fi_language info = ''go'' then analyze_go env info
      else info)"

text \<open>
  The body of the loop over the files of the walk; \<open>os.walk\<close> does not enter a directory
  whose name is in \<open>IGNORE_DIRS\<close>. The state is the list of issues and the dictionary of
  files of the context.
\<close>

definition scan_entry ::
  "analysis_env \<Rightarrow> dir_entry \<Rightarrow> issue list \<times> (string \<times> FileInfo) list
     \<Rightarrow> issue list \<times> (string \<times> FileInfo) list" where
  "scan_entry env e st =
     (case st of (found_issues, found_files) \<Rightarrow>
        if list_ex (\<lambda>d. d \<in> set IGNORE_DIRS) (de_dirs e) then st
        else if de_filename e \<in> set IGNORE_FILES then st
        else
          let rel_path = replace_all (join ''/'' (de_dirs e @ [de_filename e])) [BSL] ''/''
          in if de_ignored e then st
             else (case de_size e of
                     None \<Rightarrow> st
                   | Some sz \<Rightarrow>
                       if sz > MAX_FILE_SIZE then st
                       else if sz = 0
                       then (found_issues @ [empty_file_issue rel_path], found_files)
                       else (case de_content e of
                               None \<Rightarrow> st
                             | Some content \<Rightarrow>
                                 let info = \<lparr> fi_path = rel_path,
                                              fi_content = content,
                                              fi_size = sz,
                                              fi_language = detect_language (de_filename e),
                                              fi_imports = [],
                                              fi_exports = [],
                                              fi_references = [],
                                              fi_errors = [] \<rparr>
                                 in (found_issues,
                                     dict_set rel_path (analyze env info) found_files))))"

definition scan_project ::
  "analysis_env \<Rightarrow> string \<Rightarrow> dir_entry list \<Rightarrow> py_error + ProjectContext" where
  "scan_project env actual_root entries =
     (case fold (scan_entry env) entries ([], []) of
        (found_issues, found_files) \<Rightarrow>
          let ctx = \<lparr> base_dir = actual_root, files = found_files, issues = found_issues,
                      dependency_graph = [] \<rparr>;
              ctx' = ctx\<lparr> dependency_graph := build_dependency_graph ctx \<rparr>
          in case validate_cross_references ctx' of
               Inl err \<Rightarrow> Inl err
             | Inr new_issues \<Rightarrow> Inr (ctx'\<lparr> issues := issues ctx' @ new_issues \<rparr>))"


section \<open>project_context: circular imports\<close>


record dfs_state =
  visited :: "string set"
  rec_stack :: "string list"
  reported :: "string list set"
  found :: "issue list"









section \<open>chat: the patterns of the diagnosis\<close>

text \<open>
  The regular expressions of \<open>diagnose_test_error\<close>, each written out as the function that
  Python's backtracking matcher computes for it. In all of them \<open>.\<close> stands for any
  character but the newline, and \<open>['"]\<close> for one of the two quote characters.
\<close>

definition is_quote :: "char \<Rightarrow> bool" where
  "is_quote c = (c = CHR 0x27 \<or> c = CHR 0x22)"

definition isdigit :: "char \<Rightarrow> bool" where
  "isdigit c = (c \<in> set ''0123456789'')"

text \<open>
  \<open>(.+?)['"]\<close> at the start of a text: the shortest run of at least one character that a
  quote follows; the result is the run and the text after that quote. A quote in the
  first place belongs to the run.
\<close>

fun until_quote :: "string \<Rightarrow> string \<Rightarrow> (string \<times> string) option" where
  "until_quote acc [] = None"
| "until_quote acc (c # cs) =
     (if is_quote c then Some (acc, cs)
      else if c = NL then None
      else until_quote (acc @ [c]) cs)"

definition lazy_quoted :: "string \<Rightarrow> (string \<times> string) option" where
  "lazy_quoted r =
     (case r of
        [] \<Rightarrow> None
      | c # cs \<Rightarrow> if c = NL then None else until_quote [c] cs)"

text \<open>\<open>['"](.+?)['"]\<close> at the start of a text.\<close>

definition quoted :: "string \<Rightarrow> (string \<times> string) option" where
  "quoted r =
     (case r of
        [] \<Rightarrow> None
      | q # cs \<Rightarrow> if is_quote q then lazy_quoted cs else None)"

text \<open>
  \<open>re.search(r"ModuleNotFoundError: No module named ['\"](.+?)['\"]", line)\<close>: group 1
  of the leftmost match.
\<close>

fun search_module_name :: "string \<Rightarrow> string option" where
  "search_module_name [] = None"
| "search_module_name (c # cs) =
     (if startswith (c # cs) ''ModuleNotFoundError: No module named ''
      then (case quoted (drop 37 (c # cs)) of
              Some (missing, rest) \<Rightarrow> Some missing
            | None \<Rightarrow> search_module_name cs)
      else search_module_name cs)"

text \<open>
  \<open>ImportError: cannot import name ['\"](.+?)['\"] from ['\"](.+?)['\"]\<close>: the first group
  grows until a quote follows it after which the rest of the pattern matches.
\<close>

definition from_module :: "string \<Rightarrow> string option" where
  "from_module r =
     (if startswith r '' from '' then map_option fst (quoted (drop 6 r)) else None)"

fun import_name :: "string \<Rightarrow> string \<Rightarrow> (string \<times> string) option" where
  "import_name acc [] = None"
| "import_name acc (c # cs) =
     (if acc \<noteq> [] \<and> is_quote c \<and> from_module cs \<noteq> None
      then Some (acc, the (from_module cs))
      else if c = NL then None
      else import_name (acc @ [c]) cs)"

fun search_import_name :: "string \<Rightarrow> (string \<times> string) option" where
  "search_import_name [] = None"
| "search_import_name (c # cs) =
     (if startswith (c # cs) ''ImportError: cannot import name ''
      then (case drop 32 (c # cs) of
              [] \<Rightarrow> search_import_name cs
            | q # r \<Rightarrow>
                if is_quote q \<and> import_name [] r \<noteq> None then import_name [] r
                else search_import_name cs)
      else search_import_name cs)"

text \<open>
  \<open>.*line (\d+)\<close> on the rest of a line: the greedy \<open>.*\<close> stops before the last \<open>line \<close>
  that a digit follows. The result is the digits and the number of characters matched.
\<close>

fun last_line_number :: "string \<Rightarrow> (string \<times> nat) option" where
  "last_line_number [] = None"
| "last_line_number (c # cs) =
     (case last_line_number cs of
        Some (digits, n) \<Rightarrow> Some (digits, Suc n)
      | None \<Rightarrow>
          if startswith (c # cs) ''line '' \<and> takeWhile isdigit (drop 5 (c # cs)) \<noteq> []
          then Some (takeWhile isdigit (drop 5 (c # cs)),
                     5 + length (takeWhile isdigit (drop 5 (c # cs))))
          else None)"

text \<open>
  \<open>File "(.+?)".*line (\d+)\<close> at the start of a text: groups 1 and 2 and the length of
  the match. The quote after group 1 is the double quote, and the match stays on one line.
\<close>

fun until_dquote :: "string \<Rightarrow> string \<Rightarrow> (string \<times> string) option" where
  "until_dquote acc [] = None"
| "until_dquote acc (c # cs) =
     (if c = CHR 0x22 \<and> acc \<noteq> [] then Some (acc, cs)
      else if c = NL then None
      else until_dquote (acc @ [c]) cs)"

definition match_file_line :: "string \<Rightarrow> (string \<times> string \<times> nat) option" where
  "match_file_line s =
     (if startswith s (''File '' @ [CHR 0x22])
      then (case until_dquote [] (drop 6 s) of
              None \<Rightarrow> None
            | Some (fpath, rest) \<Rightarrow>
                (case last_line_number (takeWhile (\<lambda>c. c \<noteq> NL) rest) of
                   None \<Rightarrow> None
                 | Some (lineno, n) \<Rightarrow> Some (fpath, lineno, 6 + length fpath + 1 + n)))
      else None)"

text \<open>
  \<open>^(\S+\.py):(\d+):\<close> at the start of a line: the greedy \<open>\S+\<close> gives way until \<open>.py:\<close>,
  digits and a colon follow, so the last such place in the run of characters that are not
  whitespace counts. The first argument is what \<open>\S+\<close> has taken so far.
\<close>

fun last_py_place :: "string \<Rightarrow> string \<Rightarrow> (string \<times> string \<times> nat) option" where
  "last_py_place acc [] = None"
| "last_py_place acc (c # cs) =
     (if isspace c then None
      else (case last_py_place (acc @ [c]) cs of
              Some r \<Rightarrow> Some r
            | None \<Rightarrow>
                let digits = takeWhile isdigit (drop 4 (c # cs))
                in if acc \<noteq> [] \<and> startswith (c # cs) ''.py:'' \<and> digits \<noteq> []
                      \<and> startswith (drop (4 + length digits) (c # cs)) '':''
                   then Some (acc @ ''.py'', digits, length acc + 4 + length digits + 1)
                   else None))"

text \<open>
  \<open>file_pattern.finditer(error_output)\<close> with \<open>re.MULTILINE\<close>: at each place the first
  alternative is tried before the second, and the search goes on after a match. The
  arguments are the number of characters of the last match still to be skipped and
  whether the place is the start of a line.
\<close>

fun file_matches :: "nat \<Rightarrow> bool \<Rightarrow> string \<Rightarrow> (string \<times> string) list" where
  "file_matches skip at_line_start [] = []"
| "file_matches skip at_line_start (c # cs) =
     (if skip > 0 then file_matches (skip - 1) (c = NL) cs
      else (case match_file_line (c # cs) of
              Some (fpath, lineno, n) \<Rightarrow> (fpath, lineno) # file_matches (n - 1) (c = NL) cs
            | None \<Rightarrow>
                (case (if at_line_start then last_py_place [] (c # cs) else None) of
                   Some (fpath, lineno, n) \<Rightarrow> (fpath, lineno) # file_matches (n - 1) (c = NL) cs
                 | None \<Rightarrow> file_matches 0 (c = NL) cs)))"

text \<open>\<open>re.search(r'File "(.+?)".*line (\d+)', line)\<close>: group 1 of the leftmost match.\<close>

fun search_file_line :: "string \<Rightarrow> string option" where
  "search_file_line [] = None"
| "search_file_line (c # cs) =
     (case match_file_line (c # cs) of
        Some (fpath, lineno, n) \<Rightarrow> Some fpath
      | None \<Rightarrow> search_file_line cs)"

text \<open>
  \<open>re.search(r'First list contains (\d+) additional elements', text)\<close>: group 1 of the
  leftmost match.
\<close>

fun search_additional :: "string \<Rightarrow> string option" where
  "search_additional [] = None"
| "search_additional (c # cs) =
     (let digits = takeWhile isdigit (drop 20 (c # cs))
      in if startswith (c # cs) ''First list contains '' \<and> digits \<noteq> []
            \<and> startswith (drop (20 + length digits) (c # cs)) '' additional elements''
         then Some digits
         else search_additional cs)"

text \<open>\<open>re.search(r"KeyError: ['\"]([A-Z_]{3,})['\"]", text)\<close>: group 1 of the leftmost match.\<close>

definition is_env_char :: "char \<Rightarrow> bool" where
  "is_env_char c = (c \<in> set ''ABCDEFGHIJKLMNOPQRSTUVWXYZ_'')"

fun search_env_key :: "string \<Rightarrow> string option" where
  "search_env_key [] = None"
| "search_env_key (c # cs) =
     (if startswith (c # cs) ''KeyError: ''
      then (case drop 10 (c # cs) of
              [] \<Rightarrow> search_env_key cs
            | q # r \<Rightarrow>
                let key = takeWhile is_env_char r
                in if is_quote q \<and> length key \<ge> 3
                      \<and> (case drop (length key) r of [] \<Rightarrow> False | q' # r' \<Rightarrow> is_quote q')
                   then Some key
                   else search_env_key cs)
      else search_env_key cs)"

text \<open>
  \<open>AttributeError: (?:module |type object )?['\"]?(.+?)['\"]? has no attribute ['\"](.+?)['\"]\<close>.
  \<open>attribute_tail\<close> is the part from \<open> has no attribute\<close> on, \<open>attribute_object\<close> the lazy first
  group with the optional quote after it, and \<open>match_attribute\<close> tries the optional parts
  before it in the order of the matcher: with the word and the quote, with the word, with
  the quote, with neither.
\<close>

definition attribute_tail :: "string \<Rightarrow> string option" where
  "attribute_tail r =
     (if startswith r '' has no attribute '' then map_option fst (quoted (drop 18 r)) else None)"

fun attribute_object :: "string \<Rightarrow> string \<Rightarrow> (string \<times> string) option" where
  "attribute_object acc [] = None"
| "attribute_object acc (c # cs) =
     (if acc \<noteq> [] \<and> is_quote c \<and> attribute_tail cs \<noteq> None
      then Some (acc, the (attribute_tail cs))
      else if acc \<noteq> [] \<and> attribute_tail (c # cs) \<noteq> None
      then Some (acc, the (attribute_tail (c # cs)))
      else if c = NL then None
      else attribute_object (acc @ [c]) cs)"

text \<open>Whether a search has a match: the truth value of a match object.\<close>

definition has_match :: "'a option \<Rightarrow> bool" where
  "has_match m = (m \<noteq> None)"

fun first_some :: "'a option list \<Rightarrow> 'a option" where
  "first_some [] = None"
| "first_some (None # xs) = first_some xs"
| "first_some (Some x # xs) = Some x"

definition after_optional_quote :: "string \<Rightarrow> (string \<times> string) option" where
  "after_optional_quote t =
     first_some [case t of [] \<Rightarrow> None
                         | q # r \<Rightarrow> if is_quote q then attribute_object [] r else None,
                 attribute_object [] t]"

definition match_attribute :: "string \<Rightarrow> (string \<times> string) option" where
  "match_attribute t =
     first_some [if startswith t ''module '' then after_optional_quote (drop 7 t) else None,
                 if startswith t ''type object '' then after_optional_quote (drop 12 t) else None,
                 after_optional_quote t]"

fun search_attribute :: "string \<Rightarrow> (string \<times> string) option" where
  "search_attribute [] = None"
| "search_attribute (c # cs) =
     (if startswith (c # cs) ''AttributeError: '' \<and> match_attribute (drop 16 (c # cs)) \<noteq> None
      then match_attribute (drop 16 (c # cs))
      else search_attribute cs)"


section \<open>chat: diagnosis of a failed command\<close>

record diagnosis =
  d_error_type :: string
  d_root_cause :: string
  d_affected_files :: "string list"
  d_missing_module :: string
  d_import_chain :: "string list"
  d_fix_guidance :: string
  d_is_local_import :: bool
  d_is_pip_package :: bool

text \<open>
  What the diagnosis asks the file system: whether a path below the working directory,
  written as the code joins it to \<open>Path.cwd()\<close>, is a regular file or a directory.
\<close>

record file_system =
  is_file :: "string \<Rightarrow> bool"
  is_dir :: "string \<Rightarrow> bool"

definition SQ :: string where
  "SQ = [CHR 0x27]"

definition DQ :: string where
  "DQ = [CHR 0x22]"

text \<open>The dash U+2014 of two messages, written as its three UTF-8 bytes.\<close>

definition EM_DASH :: string where
  "EM_DASH = [CHR 0xE2, CHR 0x80, CHR 0x94]"

definition local_import_root_cause :: "string \<Rightarrow> string" where
  "local_import_root_cause missing =
     ''Module '' @ SQ @ missing @ SQ @ '' exists as a local file but Python can'' @ SQ
     @ ''t find it. This is an IMPORT PATH issue, not a missing pip p'' @ ''ackage.''"

definition src_prefix_guidance :: "string \<Rightarrow> string \<Rightarrow> string" where
  "src_prefix_guidance top_level missing =
     ''The file exists at '' @ SQ @ ''src/'' @ top_level @ ''.py'' @ SQ
     @ '' but is being imported as '' @ SQ @ missing @ SQ @ '' (without the '' @ SQ
     @ ''src.'' @ SQ @ '' prefix). FIXES (choose one):\<newline>''
     @ ''  1. Change the import in the IMPORTING file to '' @ SQ @ ''from src.'' @ missing
     @ '' import ...'' @ SQ @ '' '' @ EM_DASH @ '' this is the best fix\<newline>''
     @ ''  2. Add a conftest.py that adds '' @ SQ @ ''src'' @ SQ
     @ '' to sys.path\<newline>'' @ ''  3. Add '' @ SQ @ ''src'' @ SQ
     @ '' to sys.path at the top of the importing file\<newline>'' @ ''DO NOT add '' @ SQ
     @ missing @ SQ @ '' to requirements.txt '' @ EM_DASH
     @ '' it is NOT a pip package.\<newline>''
     @ ''DO NOT modify requirements.txt at all for this error.''"

definition project_root_guidance :: "string \<Rightarrow> string \<Rightarrow> string" where
  "project_root_guidance top_level missing =
     ''The file '' @ SQ @ top_level @ ''.py'' @ SQ
     @ '' exists in the project root but Python can'' @ SQ
     @ ''t find it. The importing file may be running from a differen''
     @ ''t directory. Check:\<newline>'' @ ''  1. Is there a sys.path issue?\<newline>''
     @ ''  2. Does conftest.py add the project root to sys.path?\<newline>''
     @ ''  3. Does the project need a setup.py or pyproject.toml with''
     @ '' package configuration?\<newline>'' @ ''DO NOT add '' @ SQ @ missing @ SQ
     @ '' to requirements.txt.''"

definition not_found_guidance :: "string \<Rightarrow> string" where
  "not_found_guidance missing =
     ''Module '' @ SQ @ missing @ SQ
     @ '' looks like a local module name but the file wasn'' @ SQ
     @ ''t found. Check:\<newline>'' @ ''  1. Does the file need to be created?\<newline>''
     @ ''  2. Is the import path/spelling wrong?\<newline>''
     @ ''  3. Search the project for files that might match.\<newline>'' @ ''DO NOT add ''
     @ SQ @ missing @ SQ @ '' to requirements.txt unless you are CERTAIN it'' @ SQ
     @ ''s a third-party package listed on PyPI.''"

definition pip_root_cause :: "string \<Rightarrow> string" where
  "pip_root_cause missing =
     ''Module '' @ SQ @ missing @ SQ @ '' appears to be a third-party package that'' @ SQ
     @ ''s not installed.''"

definition pip_guidance :: "string \<Rightarrow> string" where
  "pip_guidance missing =
     ''Add '' @ SQ @ missing @ SQ
     @ '' to requirements.txt with an appropriate version pin, then r''
     @ ''einstall dependencies.''"

definition missing_symbol_root_cause :: "string \<Rightarrow> string \<Rightarrow> string" where
  "missing_symbol_root_cause symbol module =
     ''Module '' @ SQ @ module @ SQ @ '' exists but doesn'' @ SQ @ ''t export '' @ SQ
     @ symbol @ SQ @ ''. This could be a version mismatch (the symbol was added in ''
     @ ''a newer version or removed in the current one), or the symbo''
     @ ''l name is misspelled, or it'' @ SQ @ ''s defined in a different submodule.''"

definition missing_symbol_guidance :: "string \<Rightarrow> string \<Rightarrow> string" where
  "missing_symbol_guidance symbol module =
     ''1. Use read_file to check the actual source of '' @ SQ @ module @ SQ
     @ '' and see what it exports\<newline>'' @ ''2. Check what version of '' @ SQ @ module
     @ SQ @ '' provides '' @ SQ @ symbol @ SQ @ ''\<newline>''
     @ ''3. Update the version in requirements.txt if needed\<newline>''
     @ ''4. Or fix the import if the symbol name is wrong\<newline>'' @ ''5. If '' @ SQ
     @ module @ SQ @ '' is a local file, read it and check what names are defined i''
     @ ''n it''"

definition local_module_note :: "string" where
  "local_module_note =
     ''\<newline>'' @ ''\<newline>''
     @ ''This appears to be a LOCAL module. Read the file to check wh'' @ ''at'' @ SQ
     @ ''s actually defined in it before changing requirements.txt.''"

definition syntax_root_cause :: "string \<Rightarrow> string" where
  "syntax_root_cause error_line =
     ''Syntax error in source file: '' @ error_line"

definition syntax_guidance :: "string" where
  "syntax_guidance =
     ''Read the file mentioned in the traceback and fix the syntax ''
     @ ''error. Use read_file to see the actual file content.\<newline>''
     @ ''Do NOT modify requirements.txt for syntax errors.''"

definition indentation_root_cause :: "string \<Rightarrow> string" where
  "indentation_root_cause error_line =
     ''Indentation error: '' @ error_line"

definition indentation_guidance :: "string" where
  "indentation_guidance =
     ''Read the file and fix the indentation. Do NOT modify require''
     @ ''ments.txt for indentation errors.''"

definition shared_state_root_cause :: "string \<Rightarrow> string" where
  "shared_state_root_cause count =
     ''Tests are loading stale data from a persistent file (e.g. ta''
     @ ''sks.json). The list has '' @ count
     @ '' extra elements left over from previous test runs. Each test''
     @ '' instantiates the class and it loads ALL prior data from dis'' @ ''k.''"

definition shared_state_guidance :: "string" where
  "shared_state_guidance =
     ''1. Add data_file=None support to the class __init__:\<newline>''
     @ ''     def __init__(self, data_file='' @ SQ @ ''tasks.json'' @ SQ @ ''):\<newline>''
     @ ''         self.data_file = data_file\<newline>''
     @ ''         self.tasks = []\<newline>''
     @ ''         if data_file: self.load_tasks()\<newline>''
     @ ''2. In every test, use setUp():\<newline>'' @ ''     def setUp(self):\<newline>''
     @ ''         self.manager = TodoManager(data_file=None)\<newline>''
     @ ''3. In tearDown(), delete any leftover data files:\<newline>''
     @ ''     def tearDown(self):\<newline>'' @ ''         if os.path.exists('' @ SQ
     @ ''tasks.json'' @ SQ @ ''): os.remove('' @ SQ @ ''tasks.json'' @ SQ @ '')\<newline>''
     @ ''4. Delete the existing tasks.json from the project root righ''
     @ ''t now.\<newline>'' @ ''DO NOT change test assertions '' @ EM_DASH
     @ '' fix the class and test setup instead.''"

definition connection_root_cause :: "string" where
  "connection_root_cause =
     ''Test is connecting to a real server that isn'' @ SQ
     @ ''t running. Unit/integration tests must use the framework'' @ SQ
     @ ''s test client, not real HTTP.''"

definition connection_guidance :: "string" where
  "connection_guidance =
     ''Replace all requests.get/post('' @ SQ @ ''http://localhost:...'' @ SQ
     @ '') with:\<newline>'' @ ''  Flask: client = app.test_client(); client.get('' @ SQ
     @ ''/route'' @ SQ @ '')\<newline>''
     @ ''  FastAPI: client = TestClient(app); client.get('' @ SQ @ ''/route'' @ SQ
     @ '')\<newline>'' @ ''Remove any app.run() or server.listen() calls from test file''
     @ ''s.''"

definition integrity_root_cause :: "string" where
  "integrity_root_cause =
     ''Tests are sharing database state. A prior test left rows tha''
     @ ''t violate a UNIQUE or NOT NULL constraint in the next test.''"

definition integrity_guidance :: "string" where
  "integrity_guidance =
     ''Add to setUp():  db.drop_all(); db.create_all()\<newline>''
     @ ''Add to tearDown(): db.session.remove(); db.drop_all()\<newline>'' @ ''Use '' @ SQ
     @ ''sqlite:///:memory:'' @ SQ @ '' as the test DB URI.\<newline>''
     @ ''For Django, use django.test.TestCase (auto-rollback per test'' @ '').''"

definition table_root_cause :: "string" where
  "table_root_cause =
     ''Test database tables were never created. db.create_all() mus''
     @ ''t run inside the app context before any test.''"

definition table_guidance :: "string" where
  "table_guidance =
     ''In setUp(), after setting the test DB URI:\<newline>''
     @ ''  with app.app_context():\<newline>'' @ ''      db.create_all()\<newline>''
     @ ''For FastAPI/SQLModel: SQLModel.metadata.create_all(engine)\<newline>''
     @ ''Ensure this runs BEFORE any test method that touches the DB.''"

definition env_root_cause :: "string \<Rightarrow> string" where
  "env_root_cause missing_key =
     ''Environment variable '' @ SQ @ missing_key @ SQ
     @ '' is not set in the test environment.''"

definition env_guidance :: "string \<Rightarrow> string" where
  "env_guidance missing_key =
     ''In setUp() or conftest.py, set a safe test default:\<newline>'' @ ''  os.environ[''
     @ SQ @ missing_key @ SQ @ ''] = '' @ SQ @ ''test_value'' @ SQ @ ''\<newline>''
     @ ''Or use: @unittest.mock.patch.dict(os.environ, {'' @ SQ @ missing_key @ SQ @ '': ''
     @ SQ @ ''test'' @ SQ @ ''})\<newline>''
     @ ''Never rely on a real .env file being present during automate'' @ ''d tests.''"

definition attribute_root_cause :: "string \<Rightarrow> string \<Rightarrow> string" where
  "attribute_root_cause obj attr =
     SQ @ obj @ SQ @ '' doesn'' @ SQ @ ''t have attribute '' @ SQ @ attr @ SQ
     @ ''. This is usually a version mismatch or API change.''"

definition attribute_guidance :: "string \<Rightarrow> string" where
  "attribute_guidance attr =
     ''1. Check which version of the package provides '' @ SQ @ attr @ SQ @ ''\<newline>''
     @ ''2. Read the source file to see what'' @ SQ @ ''s available\<newline>''
     @ ''3. Update the version in requirements.txt if it'' @ SQ
     @ ''s a third-party package version issue''"

definition unknown_diagnosis :: diagnosis where
  "unknown_diagnosis =
     \<lparr> d_error_type = ''unknown'', d_root_cause = [], d_affected_files = [],
       d_missing_module = [], d_import_chain = [], d_fix_guidance = [],
       d_is_local_import = False, d_is_pip_package = False \<rparr>"

definition ERROR_PREFIXES :: "string list" where
  "ERROR_PREFIXES =
     [''ModuleNotFoundError:'', ''ImportError:'', ''SyntaxError:'', ''IndentationError:'',
      ''NameError:'', ''AttributeError:'']"

text \<open>
  The loop over \<open>reversed(lines)\<close>: the last line whose stripped text starts with one of
  the prefixes, stripped; the empty string when there is none.
\<close>

definition find_error_line :: "string list \<Rightarrow> string" where
  "find_error_line lines =
     (case find (\<lambda>line. list_ex (startswith (strip line)) ERROR_PREFIXES) (rev lines) of
        None \<Rightarrow> []
      | Some line \<Rightarrow> strip line)"

definition SKIPPED_PATH_PREFIXES :: "string list" where
  "SKIPPED_PATH_PREFIXES = [''C:'' @ [BSL] @ ''Python'', ''/usr/lib'', ''<'', ''importlib'']"

text \<open>The loop over the matches of \<open>file_pattern\<close>, on the two lists of the diagnosis.\<close>

definition add_chain_entry :: "string \<times> string \<Rightarrow> diagnosis \<Rightarrow> diagnosis" where
  "add_chain_entry m d =
     (case m of (fpath, lineno) \<Rightarrow>
        if fpath \<noteq> [] \<and> \<not> list_ex (startswith fpath) SKIPPED_PATH_PREFIXES
        then d\<lparr> d_import_chain := d_import_chain d @ [fpath @ '':'' @ lineno],
                d_affected_files := (if fpath \<notin> set (d_affected_files d)
                                     then d_affected_files d @ [fpath]
                                     else d_affected_files d) \<rparr>
        else d)"

definition LOCAL_MODULE_NAMES :: "string list" where
  "LOCAL_MODULE_NAMES =
     [''models'', ''crawler'', ''app'', ''config'', ''utils'', ''helpers'', ''views'',
      ''routes'', ''schemas'', ''services'', ''database'', ''db'', ''api'', ''core'',
      ''common'', ''settings'', ''urls'', ''forms'', ''serializers'', ''tasks'',
      ''middleware'', ''decorators'', ''exceptions'', ''constants'', ''enums'', ''managers'']"

definition local_indicators :: "file_system \<Rightarrow> string \<Rightarrow> bool list" where
  "local_indicators fs top_level =
     [is_file fs (top_level @ ''.py''),
      is_dir fs top_level,
      is_file fs (''src/'' @ top_level @ ''.py''),
      is_dir fs (''src/'' @ top_level),
      is_file fs (''lib/'' @ top_level @ ''.py''),
      is_file fs (''app/'' @ top_level @ ''.py''),
      top_level \<in> set LOCAL_MODULE_NAMES]"

definition missing_module_diagnosis :: "file_system \<Rightarrow> string \<Rightarrow> string \<Rightarrow> diagnosis" where
  "missing_module_diagnosis fs error_output missing =
     (let d = fold add_chain_entry (file_matches 0 True error_output)
                (unknown_diagnosis\<lparr> d_error_type := ''missing_module'',
                                     d_missing_module := missing \<rparr>);
          top_level = hd (split_on (CHR ''.'') missing)
      in if list_ex (\<lambda>b. b) (local_indicators fs top_level)
         then
           d\<lparr> d_is_local_import := True,
               d_is_pip_package := False,
               d_root_cause := local_import_root_cause missing,
               d_fix_guidance :=
                 (if (is_file fs (''src/'' @ top_level @ ''.py'') \<or> is_dir fs (''src/'' @ top_level))
                     \<and> \<not> is_file fs (top_level @ ''.py'') \<and> \<not> is_dir fs top_level
                  then src_prefix_guidance top_level missing
                  else if is_file fs (top_level @ ''.py'') \<or> is_dir fs top_level
                  then project_root_guidance top_level missing
                  else not_found_guidance missing) \<rparr>
         else
           d\<lparr> d_is_local_import := False,
               d_is_pip_package := True,
               d_root_cause := pip_root_cause missing,
               d_fix_guidance := pip_guidance missing \<rparr>)"

definition missing_symbol_diagnosis :: "file_system \<Rightarrow> string \<Rightarrow> string \<Rightarrow> diagnosis" where
  "missing_symbol_diagnosis fs symbol module =
     (let d = unknown_diagnosis\<lparr> d_error_type := ''missing_symbol'',
                                  d_missing_module := module,
                                  d_root_cause := missing_symbol_root_cause symbol module,
                                  d_fix_guidance := missing_symbol_guidance symbol module \<rparr>;
          top_level = hd (split_on (CHR ''.'') module)
      in if is_file fs (top_level @ ''.py'') \<or> is_file fs (''src/'' @ top_level @ ''.py'')
         then d\<lparr> d_is_local_import := True,
                 d_fix_guidance := d_fix_guidance d @ local_module_note \<rparr>
         else d)"

text \<open>
  The loop of the two syntax branches over the lines of the output: the file of each line
  that holds \<open>File "\<close> and \<open>.py"\<close> and matches the pattern.
\<close>

definition traceback_files :: "string list \<Rightarrow> string list" where
  "traceback_files lines =
     concat (map (\<lambda>line. if contains line (''File '' @ DQ) \<and> contains line (''.py'' @ DQ)
                          then (case search_file_line line of
                                  None \<Rightarrow> []
                                | Some fpath \<Rightarrow> [fpath])
                          else [])
                 lines)"

definition diagnose_test_error :: "file_system \<Rightarrow> string \<Rightarrow> diagnosis" where
  "diagnose_test_error fs error_output =
     (let lines = split_on NL (strip error_output);
          error_line = find_error_line lines
      in if error_line = [] then unknown_diagnosis
         else (case search_module_name error_line of
           Some missing \<Rightarrow> missing_module_diagnosis fs error_output missing
         | None \<Rightarrow>
         (case search_import_name error_line of
           Some (symbol, module) \<Rightarrow> missing_symbol_diagnosis fs symbol module
         | None \<Rightarrow>
         if contains error_line ''SyntaxError''
         then unknown_diagnosis\<lparr> d_error_type := ''syntax_error'',
                                  d_affected_files := traceback_files lines,
                                  d_root_cause := syntax_root_cause error_line,
                                  d_fix_guidance := syntax_guidance \<rparr>
         else if contains error_line ''IndentationError''
         then unknown_diagnosis\<lparr> d_error_type := ''indentation_error'',
                                  d_affected_files := traceback_files lines,
                                  d_root_cause := indentation_root_cause error_line,
                                  d_fix_guidance := indentation_guidance \<rparr>
         else if has_match (search_additional error_output)
                 \<or> contains error_output ''First extra element''
         then unknown_diagnosis\<lparr> d_error_type := ''shared_file_state'',
                  d_root_cause := shared_state_root_cause
                    (case search_additional error_output of
                       Some n \<Rightarrow> n
                     | None \<Rightarrow> ''multiple''),
                  d_fix_guidance := shared_state_guidance \<rparr>
         else if contains error_output ''ConnectionRefusedError''
                 \<or> contains error_output ''Connection refused''
         then unknown_diagnosis\<lparr> d_error_type := ''connection_refused'',
                                  d_root_cause := connection_root_cause,
                                  d_fix_guidance := connection_guidance \<rparr>
         else if list_ex (contains error_output)
                   [''IntegrityError'', ''UniqueViolation'', ''UNIQUE constraint failed'',
                    ''duplicate key value violates'', ''NOT NULL constraint failed'']
         then unknown_diagnosis\<lparr> d_error_type := ''db_integrity_error'',
                                  d_root_cause := integrity_root_cause,
                                  d_fix_guidance := integrity_guidance \<rparr>
         else if list_ex (contains error_output)
                   [''no such table'', ''relation does not exist'',
                    ''Table doesn'' @ SQ @ ''t exist'']
         then unknown_diagnosis\<lparr> d_error_type := ''db_table_missing'',
                                  d_root_cause := table_root_cause,
                                  d_fix_guidance := table_guidance \<rparr>
         else if has_match (search_env_key error_output)
                 \<and> list_ex (contains error_output)
                       [''os.environ'', ''os.getenv'', ''environ['', ''getenv('']
         then (let missing_key = the (search_env_key error_output)
               in unknown_diagnosis\<lparr> d_error_type := ''missing_env_var'',
                                        d_missing_module := missing_key,
                                        d_root_cause := env_root_cause missing_key,
                                        d_fix_guidance := env_guidance missing_key \<rparr>)
         else (case search_attribute error_line of
                 Some (obj, attr) \<Rightarrow>
                   unknown_diagnosis\<lparr> d_error_type := ''attribute_error'',
                                        d_root_cause := attribute_root_cause obj attr,
                                        d_fix_guidance := attribute_guidance attr \<rparr>
               | None \<Rightarrow> unknown_diagnosis))))"

text \<open>
  The output of a failed \<open>unittest\<close> comparison of two lists, and a file system with the
  files \<open>main.py\<close> and \<open>src/utils.py\<close>.
\<close>

definition list_failure_output :: string where
  "list_failure_output =
     ''AssertionError: Lists differ: [1, 2, 3] != [1]\<newline>\<newline>''
     @ ''First list contains 2 additional elements.\<newline>''
     @ ''First extra element 1:\<newline>2\<newline>''"

definition sample_fs :: file_system where
  "sample_fs =
     \<lparr> is_file = (\<lambda>p. p \<in> set [''main.py'', ''src/utils.py'']),
       is_dir = (\<lambda>p. p \<in> set [''src'']) \<rparr>"

definition no_module_named :: "string \<Rightarrow> string" where
  "no_module_named name = ''ModuleNotFoundError: No module named '' @ SQ @ name @ SQ"


section \<open>Auxiliary notions for the properties\<close>

definition unresolved_local :: "ProjectContext \<Rightarrow> string \<Rightarrow> FileInfo \<Rightarrow> string list \<Rightarrow> issue \<Rightarrow> bool" where
  "unresolved_local ctx fpath info imps i =
     list_ex (\<lambda>imp. i = missing_import_issue fpath imp \<and>
                     is_local_import imp (fi_language info) ctx \<and>
                     resolve_import imp fpath ctx = None) imps"

definition unresolved_in :: "ProjectContext \<Rightarrow> (string \<times> FileInfo) list \<Rightarrow> issue \<Rightarrow> bool" where
  "unresolved_in ctx fs i =
     list_ex (\<lambda>(fpath, info). unresolved_local ctx fpath info (fi_imports info) i) fs"

text \<open>What one file of the scan is: the analysis of its content, and nothing else.\<close>

definition analyzed :: "analysis_env \<Rightarrow> string \<times> FileInfo \<Rightarrow> bool" where
  "analyzed env entry =
     (snd entry = analyze env ((snd entry)\<lparr> fi_imports := [], fi_exports := [],
                                            fi_references := [], fi_errors := [] \<rparr>))"

definition reports_missing_import :: "string \<Rightarrow> issue \<Rightarrow> bool" where
  "reports_missing_import file i =
     (issue_type i = ''missing_import'' \<and> issue_severity i = ''error'' \<and> issue_file i = file)"

definition sample_env :: analysis_env where
  "sample_env =
     \<lparr> ast_walk = (\<lambda>content.
         if content = ''from utils import helper\<newline>''
         then Inr [OtherNode, ImportFrom (Some ''utils'') [''helper''], OtherNode]
         else if content = ''def helper():\<newline>    pass\<newline>''
         then Inr [OtherNode, FunctionDef ''helper'', OtherNode, OtherNode]
         else Inl ''invalid syntax (<unknown>, line 1)''),
       re_path_refs = (\<lambda>content. []),
       re_js_imports = (\<lambda>content. []),
       re_js_exports = (\<lambda>content. []),
       re_rust_uses = (\<lambda>content. []),
       re_rust_pubs = (\<lambda>content. []),
       re_rust_mods = (\<lambda>content. []),
       re_go_block = (\<lambda>content. None),
       re_go_imports = (\<lambda>content. []),
       re_go_exports = (\<lambda>content. []) \<rparr>"

definition two_file_entries :: "dir_entry list" where
  "two_file_entries =
     [\<lparr> de_dirs = [], de_filename = ''main.py'', de_ignored = False, de_size = Some 25,
        de_content = Some ''from utils import helper\<newline>'' \<rparr>,
      \<lparr> de_dirs = [], de_filename = ''helpers.py'', de_ignored = False, de_size = Some 23,
        de_content = Some ''def helper():\<newline>    pass\<newline>'' \<rparr>]"

definition more_entries :: "dir_entry list" where
  "more_entries =
     two_file_entries @
     [\<lparr> de_dirs = [''pkg''], de_filename = ''empty.py'', de_ignored = False, de_size = Some 0,
        de_content = Some [] \<rparr>,
      \<lparr> de_dirs = [''pkg''], de_filename = ''broken.py'', de_ignored = False, de_size = Some 5,
        de_content = Some ''def (\<newline>'' \<rparr>]"


definition two_file_files :: "(string \<times> FileInfo) list" where
  "two_file_files =
     [(''main.py'', \<lparr> fi_path = ''main.py'', fi_content = ''from utils import helper\<newline>'',
         fi_size = 25, fi_language = ''python'', fi_imports = [''utils'', ''utils.helper''],
         fi_exports = [], fi_references = [], fi_errors = [] \<rparr>),
      (''helpers.py'', \<lparr> fi_path = ''helpers.py'',
         fi_content = ''def helper():\<newline>    pass\<newline>'', fi_size = 23,
         fi_language = ''python'', fi_imports = [], fi_exports = [''def helper''],
         fi_references = [], fi_errors = [] \<rparr>)]"

definition two_file_ctx :: ProjectContext where
  "two_file_ctx =
     \<lparr> base_dir = ''/proj'', files = two_file_files, issues = [],
       dependency_graph = [(''main.py'', []), (''helpers.py'', [])] \<rparr>"

definition more_files :: "(string \<times> FileInfo) list" where
  "more_files =
     two_file_files @
     [(''pkg/broken.py'', \<lparr> fi_path = ''pkg/broken.py'', fi_content = ''def (\<newline>'',
         fi_size = 5, fi_language = ''python'', fi_imports = [], fi_exports = [],
         fi_references = [],
         fi_errors = [''Syntax error: invalid syntax (<unknown>, line 1)''] \<rparr>)]"

definition more_ctx :: ProjectContext where
  "more_ctx =
     \<lparr> base_dir = ''/proj'', files = more_files,
       issues = [empty_file_issue ''pkg/empty.py'', orphan_issue ''helpers.py'',
                 orphan_issue ''pkg/broken.py''],
       dependency_graph = [(''main.py'', []), (''helpers.py'', []), (''pkg/broken.py'', [])] \<rparr>"

definition more_ctx0 :: ProjectContext where
  "more_ctx0 = more_ctx\<lparr> issues := [empty_file_issue ''pkg/empty.py''] \<rparr>"









text \<open>The two flags of a diagnosis are not both set.\<close>

definition flags_ok :: "diagnosis \<Rightarrow> bool" where
  "flags_ok d = (\<not> (d_is_local_import d \<and> d_is_pip_package d))"

text \<open>The same output after a line that names an error.\<close>

definition name_error_output :: string where
  "name_error_output = ''NameError: x\<newline>'' @ list_failure_output"


section \<open>Multiple occurrences of the search text\<close>

text \<open>
  C1. The specification's own example, content \<open>x\nx\n\<close> with search \<open>x\n\<close>: the exact
  strategy sees two occurrences and falls through, and the trailing-whitespace strategy
  then takes the first occurrence, so a result is returned instead of \<open>None\<close>.
\<close>

theorem apply_search_replace_multiple_occurrence:
  "count_sub ''x\<newline>x\<newline>'' ''x\<newline>'' = 2 \<and>
   apply_search_replace ''x\<newline>x\<newline>'' ''x\<newline>'' ''y\<newline>'' = Some ''y\<newline>\<newline>''"
  by (simp add: apply_search_replace_def count_sub_def contains_def NL_def
      normalize_trailing_whitespace_def rstrip_def isspace_def replace_first_def
      splice_lines_def)

section \<open>Unresolved imports\<close>

lemma check_import_acc:
  "snd (snd (check_import ctx fpath info imp (cm, si, acc))) = acc \<or>
   (snd (snd (check_import ctx fpath info imp (cm, si, acc))) = acc @ [missing_import_issue fpath imp]
    \<and> is_local_import imp (fi_language info) ctx \<and> resolve_import imp fpath ctx = None)"
  by (simp add: check_import_def Let_def)

lemma unresolved_local_Cons:
  "unresolved_local ctx fpath info imps i \<Longrightarrow> unresolved_local ctx fpath info (imp # imps) i"
  by (simp add: unresolved_local_def)

lemma fold_check_import_acc:
  "\<exists>extra. snd (snd (fold (check_import ctx fpath info) imps (cm, si, acc))) = acc @ extra \<and>
     list_all (unresolved_local ctx fpath info imps) extra"
proof (induction imps arbitrary: cm si acc)
  case Nil
  then show ?case by simp
next
  case (Cons imp imps)
  obtain cm' si' acc' where st: "check_import ctx fpath info imp (cm, si, acc) = (cm', si', acc')"
    by (cases "check_import ctx fpath info imp (cm, si, acc)") auto
  from Cons.IH[of cm' si' acc'] obtain extra where
    e: "snd (snd (fold (check_import ctx fpath info) imps (cm', si', acc'))) = acc' @ extra"
       "list_all (unresolved_local ctx fpath info imps) extra"
    by blast
  from e(2) have e2: "list_all (unresolved_local ctx fpath info (imp # imps)) extra"
    by (auto simp: list_all_iff intro: unresolved_local_Cons)
  from check_import_acc[of ctx fpath info imp cm si acc] st
  consider "acc' = acc" | "acc' = acc @ [missing_import_issue fpath imp]"
      "is_local_import imp (fi_language info) ctx" "resolve_import imp fpath ctx = None"
    by auto
  then show ?case
  proof cases
    case 1
    with e(1) e2 st show ?thesis by auto
  next
    case 2
    then have "unresolved_local ctx fpath info (imp # imps) (missing_import_issue fpath imp)"
      by (simp add: unresolved_local_def)
    with 2 e(1) e2 st show ?thesis
      by (auto intro!: exI[of _ "missing_import_issue fpath imp # extra"])
  qed
qed

lemma fold_check_file_acc:
  "\<exists>extra. snd (fold (check_file ctx) fs (si, acc)) = acc @ extra \<and>
     list_all (unresolved_in ctx fs) extra"
proof (induction fs arbitrary: si acc)
  case Nil
  then show ?case by simp
next
  case (Cons entry fs)
  obtain fpath info where entry: "entry = (fpath, info)" by (cases entry) auto
  obtain si' acc' where st: "check_file ctx entry (si, acc) = (si', acc')"
    by (cases "check_file ctx entry (si, acc)") auto
  from fold_check_import_acc[of ctx fpath info "fi_imports info" "{}" si acc] st
  obtain extra1 where x1: "acc' = acc @ extra1"
      "list_all (unresolved_local ctx fpath info (fi_imports info)) extra1"
    by (auto simp: check_file_def entry)
  from Cons.IH[of si' acc'] obtain extra2 where
    x2: "snd (fold (check_file ctx) fs (si', acc')) = acc' @ extra2"
        "list_all (unresolved_in ctx fs) extra2"
    by blast
  have "list_all (unresolved_in ctx (entry # fs)) (extra1 @ extra2)"
    using x1(2) x2(2) by (auto simp: list_all_iff unresolved_in_def entry)
  with x1(1) x2(1) st show ?case
    by (auto intro!: exI[of _ "extra1 @ extra2"])
qed

lemma missing_import_issues_char:
  "list_all (unresolved_in ctx (files ctx)) (missing_import_issues ctx)"
  using fold_check_file_acc[of ctx "files ctx" "{}" "[]"]
  by (auto simp: missing_import_issues_def)

lemma split_on_nonempty: "split_on c s \<noteq> []"
  by (induction s) (auto split: list.splits)

lemma hd_take_split: "take (Suc 0) (split_on c s) = [hd (split_on c s)]"
  using split_on_nonempty[of c s] by (cases "split_on c s") auto

lemma resolve_python_from_top:
  assumes "in_files ctx (hd parts @ ''.py'') \<or> in_files ctx (hd parts @ ''/__init__.py'')
           \<or> any_file_startswith ctx (hd parts @ ''/'')"
      and "parts \<noteq> []"
  shows "resolve_python_from ctx parts (Suc i) \<noteq> None"
proof (induction i)
  case 0
  from assms(2) have "take (Suc 0) parts = [hd parts]" by (cases parts) auto
  with assms(1) show ?case by (auto simp: Let_def)
next
  case (Suc i)
  then show ?case by (auto simp: Let_def)
qed

lemma python_local_resolves:
  assumes "is_local_python_import imp ctx" and "\<not> startswith imp ''.''"
  shows "resolve_python_import imp fpath ctx \<noteq> None"
proof -
  let ?parts = "split_on (CHR ''.'') imp"
  have ne: "?parts \<noteq> []" by (rule split_on_nonempty)
  then obtain n where n: "length ?parts = Suc n" by (cases ?parts) auto
  from assms have "in_files ctx (hd ?parts @ ''.py'') \<or> in_files ctx (hd ?parts @ ''/__init__.py'')
           \<or> any_file_startswith ctx (hd ?parts @ ''/'')"
    by (auto simp: is_local_python_import_def Let_def split: if_splits)
  from resolve_python_from_top[OF this ne, of n] n show ?thesis
    by (simp add: resolve_python_import_def Let_def)
qed

section \<open>Circular imports\<close>










section \<open>Two sample scans, evaluated\<close>

lemma two_file_fold: "fold (scan_entry sample_env) two_file_entries ([], []) = ([], two_file_files)"
  by (simp add: two_file_entries_def scan_entry_def sample_env_def IGNORE_FILES_def Let_def
     replace_all_def BSL_def MAX_FILE_SIZE_def detect_language_def path_suffix_def path_name_def
     path_components_def rfind_dot_def lower_def lower_char_def ext_map_def analyze_def analyze_python_def
     two_file_files_def)

lemma utils_not_external: "\<not> is_external_python ''utils''" "\<not> is_external_python ''utils.helper''"
  by (simp_all add: is_external_python_def PYTHON_STDLIB_def PYTHON_THIRD_PARTY_def replace_all_def)

lemma two_file_keys: "file_keys (c\<lparr> files := two_file_files \<rparr>) = [''main.py'', ''helpers.py'']"
  "file_keys two_file_ctx = [''main.py'', ''helpers.py'']"
  by (simp_all add: file_keys_def two_file_files_def two_file_ctx_def)

lemma two_file_graph: "build_dependency_graph \<lparr> base_dir = ''/proj'', files = two_file_files, issues = [], dependency_graph = [] \<rparr>
   = [(''main.py'', []), (''helpers.py'', [])]"
  by (simp add: build_dependency_graph_def two_file_files_def resolve_import_def resolve_python_import_def
     in_files_def any_file_startswith_def file_keys_def Let_def)

lemma two_file_duplicates: "duplicate_issues two_file_ctx = Inr []"
  by (simp add: duplicate_issues_def two_file_ctx_def two_file_files_def last_word_def split_ws_def isspace_def)

lemma two_file_missing: "missing_import_issues two_file_ctx = []"
  by (simp add: missing_import_issues_def check_file_def check_import_def skips_external_def utils_not_external
      is_local_import_def is_local_python_import_def in_files_def any_file_startswith_def two_file_keys Let_def
      two_file_ctx_def two_file_files_def file_keys_def)

lemma sample_path_name: "path_name ''helpers.py'' = ''helpers.py''" "path_name ''main.py'' = ''main.py''"
  by (simp_all add: path_name_def path_components_def)

lemma sample_path_suffix: "lower (path_suffix ''helpers.py'') = ''.py''" "lower (path_suffix ''main.py'') = ''.py''"
  by (simp_all add: path_suffix_def sample_path_name rfind_dot_def lower_def lower_char_def)

lemma helpers_path_parts: "path_parts ''helpers.py'' = [''helpers.py'']"
  by (simp add: path_parts_def path_root_def path_components_def)

lemma helpers_not_test: "\<not> is_test_path ''helpers.py'' ''helpers.py''"
  by (simp add: is_test_path_def contains_def endswith_def)

lemma main_not_candidate: "\<not> is_orphan_candidate ''main.py''"
  by (simp add: is_orphan_candidate_def sample_path_name sample_path_suffix NON_IMPORTABLE_FILES_def NON_IMPORTABLE_EXTENSIONS_def ENTRY_POINT_EXACT_def)

lemma helpers_candidate: "is_orphan_candidate ''helpers.py''"
  by (simp add: is_orphan_candidate_def sample_path_name sample_path_suffix helpers_path_parts helpers_not_test NON_IMPORTABLE_FILES_def NON_IMPORTABLE_EXTENSIONS_def ENTRY_POINT_EXACT_def)

lemma two_file_orphans: "orphan_issues two_file_ctx = [orphan_issue ''helpers.py'']"
proof -
  have dg: "dependency_graph two_file_ctx = [(''main.py'', []), (''helpers.py'', [])]"
    by (simp add: two_file_ctx_def)
  show ?thesis by (simp add: orphan_issues_def two_file_keys(2) dg main_not_candidate helpers_candidate)
qed

lemma two_file_validate: "validate_cross_references two_file_ctx = Inr [orphan_issue ''helpers.py'']"
  by (simp add: validate_cross_references_def two_file_missing two_file_orphans two_file_duplicates)

lemma two_file_scan: "scan_project sample_env ''/proj'' two_file_entries =
    Inr (two_file_ctx\<lparr> issues := [orphan_issue ''helpers.py''] \<rparr>)"
  using two_file_validate by (simp add: scan_project_def two_file_fold two_file_graph Let_def two_file_ctx_def)

lemma more_fold: "fold (scan_entry sample_env) more_entries ([], []) =
    ([empty_file_issue ''pkg/empty.py''], more_files)"
proof -
  have "fold (scan_entry sample_env) more_entries ([], []) =
        fold (scan_entry sample_env)
          [\<lparr> de_dirs = [''pkg''], de_filename = ''empty.py'', de_ignored = False,
              de_size = Some 0, de_content = Some [] \<rparr>,
           \<lparr> de_dirs = [''pkg''], de_filename = ''broken.py'', de_ignored = False,
              de_size = Some 5, de_content = Some ''def (\<newline>'' \<rparr>]
          ([], two_file_files)"
    by (simp only: more_entries_def fold_append o_apply two_file_fold)
  also have "\<dots> = ([empty_file_issue ''pkg/empty.py''], more_files)"
    by (simp add: scan_entry_def sample_env_def IGNORE_FILES_def IGNORE_DIRS_def Let_def
     replace_all_def BSL_def MAX_FILE_SIZE_def detect_language_def path_suffix_def path_name_def
     path_components_def rfind_dot_def lower_def lower_char_def ext_map_def analyze_def
     analyze_python_def two_file_files_def more_files_def)
  finally show ?thesis .
qed

lemma more_graph: "build_dependency_graph \<lparr> base_dir = ''/proj'', files = more_files,
     issues = [empty_file_issue ''pkg/empty.py''], dependency_graph = [] \<rparr>
   = [(''main.py'', []), (''helpers.py'', []), (''pkg/broken.py'', [])]"
  by (simp add: build_dependency_graph_def two_file_files_def more_files_def resolve_import_def
     resolve_python_import_def in_files_def any_file_startswith_def file_keys_def Let_def)

lemma more_ctx0_fields: "file_keys more_ctx0 = [''main.py'', ''helpers.py'', ''pkg/broken.py'']"
  "dependency_graph more_ctx0 = [(''main.py'', []), (''helpers.py'', []), (''pkg/broken.py'', [])]"
  "files more_ctx0 = more_files"
  by (simp_all add: file_keys_def two_file_files_def more_files_def more_ctx0_def more_ctx_def)

lemma more_missing: "missing_import_issues more_ctx0 = []"
  by (simp add: missing_import_issues_def check_file_def check_import_def skips_external_def utils_not_external
      is_local_import_def is_local_python_import_def in_files_def any_file_startswith_def more_ctx0_fields Let_def
      two_file_files_def more_files_def)

lemma broken_path: "path_name ''pkg/broken.py'' = ''broken.py''"
  "lower (path_suffix ''pkg/broken.py'') = ''.py''"
  "path_parts ''pkg/broken.py'' = [''pkg'', ''broken.py'']"
  "\<not> is_test_path ''pkg/broken.py'' ''broken.py''"
  by (simp_all add: path_name_def path_components_def path_suffix_def rfind_dot_def lower_def
      lower_char_def path_parts_def path_root_def is_test_path_def contains_def endswith_def)

lemma broken_candidate: "is_orphan_candidate ''pkg/broken.py''"
  by (simp add: is_orphan_candidate_def broken_path NON_IMPORTABLE_FILES_def NON_IMPORTABLE_EXTENSIONS_def ENTRY_POINT_EXACT_def)

lemma more_orphans: "orphan_issues more_ctx0 = [orphan_issue ''helpers.py'', orphan_issue ''pkg/broken.py'']"
  by (simp add: orphan_issues_def more_ctx0_fields main_not_candidate helpers_candidate broken_candidate)

lemma more_duplicates: "duplicate_issues more_ctx0 = Inr []"
  by (simp add: duplicate_issues_def more_ctx0_fields more_files_def two_file_files_def last_word_def split_ws_def isspace_def)

lemma more_validate: "validate_cross_references more_ctx0 =
    Inr [orphan_issue ''helpers.py'', orphan_issue ''pkg/broken.py'']"
  by (simp add: validate_cross_references_def more_missing more_orphans more_duplicates)

lemma more_scan: "scan_project sample_env ''/proj'' more_entries = Inr more_ctx"
proof -
  have c0: "\<lparr> base_dir = ''/proj'', files = more_files,
              issues = [empty_file_issue ''pkg/empty.py''],
              dependency_graph = [(''main.py'', []), (''helpers.py'', []),
                                  (''pkg/broken.py'', [])] \<rparr> = more_ctx0"
    by (simp add: more_ctx0_def more_ctx_def)
  have c1: "more_ctx0\<lparr> issues := issues more_ctx0 @
              [orphan_issue ''helpers.py'', orphan_issue ''pkg/broken.py''] \<rparr> = more_ctx"
    by (simp add: more_ctx0_def more_ctx_def)
  show ?thesis
    by (simp add: scan_project_def more_fold more_graph Let_def c0 more_validate c1)
qed


section \<open>The issues of a scan\<close>

lemma missing_import_issue_type:
  "list_all (\<lambda>i. issue_type i = ''missing_import'') (missing_import_issues ctx)"
  using missing_import_issues_char[of ctx]
  by (auto simp: list_all_iff list_ex_iff unresolved_in_def unresolved_local_def
      missing_import_issue_def)

lemma orphan_issue_type: "list_all (\<lambda>i. issue_type i = ''orphan_file'') (orphan_issues ctx)"
  by (auto simp: list_all_iff orphan_issues_def orphan_issue_def Let_def)

lemma check_exports_acc:
  "check_exports fpath exps (ae, acc) = Inr (ae', acc') \<Longrightarrow>
   \<exists>extra. acc' = acc @ extra \<and> list_all (\<lambda>i. issue_type i = ''duplicate_definition'') extra"
proof (induction exps arbitrary: ae acc)
  case Nil
  then show ?case by simp
next
  case (Cons exp exps)
  from Cons.prems obtain name where name: "last_word exp = Inr name"
    by (cases "last_word exp") auto
  from Cons.prems name consider
      "check_exports fpath exps (ae, acc) = Inr (ae', acc')"
    | "check_exports fpath exps (dict_set name fpath ae, acc) = Inr (ae', acc')"
    | other where "check_exports fpath exps
        (dict_set name fpath ae, acc @ [duplicate_issue name fpath other]) = Inr (ae', acc')"
    by (auto split: option.splits if_splits)
  then show ?case
  proof cases
    case 1
    from Cons.IH[OF this] show ?thesis .
  next
    case 2
    from Cons.IH[OF this] show ?thesis .
  next
    case 3
    from Cons.IH[OF this] obtain extra where
      "acc' = (acc @ [duplicate_issue name fpath other]) @ extra"
      "list_all (\<lambda>i. issue_type i = ''duplicate_definition'') extra"
      by blast
    then show ?thesis
      by (auto simp: duplicate_issue_def intro!: exI[of _ "duplicate_issue name fpath other # extra"])
  qed
qed

lemma check_all_exports_acc:
  "check_all_exports fs (ae, acc) = Inr (ae', acc') \<Longrightarrow>
   \<exists>extra. acc' = acc @ extra \<and> list_all (\<lambda>i. issue_type i = ''duplicate_definition'') extra"
proof (induction fs arbitrary: ae acc)
  case Nil
  then show ?case by simp
next
  case (Cons entry fs)
  obtain fpath info where entry: "entry = (fpath, info)" by (cases entry) auto
  from Cons.prems entry obtain ae1 acc1 where
    s1: "check_exports fpath (fi_exports info) (ae, acc) = Inr (ae1, acc1)" and
    s2: "check_all_exports fs (ae1, acc1) = Inr (ae', acc')"
    by (auto split: sum.splits)
  from check_exports_acc[OF s1] Cons.IH[OF s2] show ?case
    by (auto simp: list_all_iff)
qed

lemma duplicate_issue_type:
  "duplicate_issues ctx = Inr dups \<Longrightarrow>
   list_all (\<lambda>i. issue_type i = ''duplicate_definition'') dups"
  using check_all_exports_acc[of "files ctx" "[]" "[]"]
  by (cases "check_all_exports (files ctx) ([], [])") (auto simp: duplicate_issues_def)

lemma validate_cross_references_types:
  assumes "validate_cross_references ctx = Inr new_issues"
  shows "list_all (\<lambda>i. issue_type i \<in> {''missing_import'', ''orphan_file'', ''duplicate_definition''})
           new_issues"
proof -
  from assms obtain dups where d: "duplicate_issues ctx = Inr dups"
      and f: "new_issues = missing_import_issues ctx @ orphan_issues ctx @ dups"
    by (auto simp: validate_cross_references_def split: sum.splits)
  from duplicate_issue_type[OF d] missing_import_issue_type[of ctx] orphan_issue_type[of ctx]
  show ?thesis unfolding f by (auto simp: list_all_iff)
qed

lemma analyze_keeps:
  "fi_content (analyze env info) = fi_content info \<and>
   fi_language (analyze env info) = fi_language info \<and>
   fi_path (analyze env info) = fi_path info \<and> fi_size (analyze env info) = fi_size info"
proof -
  have "fi_content (fold visit_node nodes i) = fi_content i \<and>
        fi_language (fold visit_node nodes i) = fi_language i \<and>
        fi_path (fold visit_node nodes i) = fi_path i \<and>
        fi_size (fold visit_node nodes i) = fi_size i" for nodes i
  proof (induction nodes arbitrary: i)
    case Nil
    then show ?case by simp
  next
    case (Cons n ns)
    then show ?case by (cases n) (auto simp: Let_def)
  qed
  then show ?thesis
    by (auto simp: analyze_def analyze_python_def analyze_javascript_def analyze_rust_def
        analyze_go_def split: sum.splits)
qed

lemma set_dict_set: "set (dict_set k v xs) \<subseteq> insert (k, v) (set xs)"
  by (induction xs) (auto split: if_splits)

lemma scan_entry_inv:
  assumes "scan_entry env e (is, fs) = (is', fs')"
      and "list_all (analyzed env) fs"
  shows "(\<exists>extra. is' = is @ extra \<and> list_all (\<lambda>i. issue_type i = ''empty_file'') extra)
         \<and> list_all (analyzed env) fs'"
proof -
  have a: "analyzed env (p, analyze env \<lparr> fi_path = p, fi_content = c, fi_size = sz,
             fi_language = l, fi_imports = [], fi_exports = [], fi_references = [],
             fi_errors = [] \<rparr>)" for p c sz l
  proof -
    let ?i = "\<lparr> fi_path = p, fi_content = c, fi_size = sz,
             fi_language = l, fi_imports = [], fi_exports = [], fi_references = [],
             fi_errors = [] \<rparr>"
    have "(analyze env ?i)\<lparr> fi_imports := [], fi_exports := [],
             fi_references := [], fi_errors := [] \<rparr> = ?i"
      using analyze_keeps[of env ?i] by (cases "analyze env ?i") auto
    then show ?thesis by (simp add: analyzed_def)
  qed
  from assms show ?thesis
    using set_dict_set
    by (fastforce simp: scan_entry_def Let_def list_all_iff empty_file_issue_def a
        split: if_splits option.splits)
qed

lemma fold_scan_entry_inv:
  assumes "fold (scan_entry env) es (is, fs) = (is', fs')"
      and "list_all (analyzed env) fs"
  shows "(\<exists>extra. is' = is @ extra \<and> list_all (\<lambda>i. issue_type i = ''empty_file'') extra)
         \<and> list_all (analyzed env) fs'"
  using assms
proof (induction es arbitrary: "is" fs)
  case Nil
  then show ?case by simp
next
  case (Cons e es)
  obtain is1 fs1 where s1: "scan_entry env e (is, fs) = (is1, fs1)"
    by (cases "scan_entry env e (is, fs)") auto
  from scan_entry_inv[OF s1 Cons.prems(2)] obtain x1 where
    x1: "is1 = is @ x1" "list_all (\<lambda>i. issue_type i = ''empty_file'') x1"
      "list_all (analyzed env) fs1"
    by blast
  from Cons.prems(1) s1 have "fold (scan_entry env) es (is1, fs1) = (is', fs')" by simp
  from Cons.IH[OF this x1(3)] x1 show ?case by (auto simp: list_all_iff)
qed

lemma analyzed_syntax_error:
  assumes "analyzed env (p, info)" and "fi_language info = ''python''"
      and "ast_walk env (fi_content info) = Inl msg"
  shows "fi_errors info = [''Syntax error: '' @ msg]"
proof -
  let ?b = "info\<lparr> fi_imports := [], fi_exports := [], fi_references := [], fi_errors := [] \<rparr>"
  from assms(1) have "info = analyze env ?b" by (simp add: analyzed_def)
  then have "fi_errors info = fi_errors (analyze env ?b)" by simp
  also have "\<dots> = [''Syntax error: '' @ msg]"
    using assms(2,3) by (simp add: analyze_def analyze_python_def)
  finally show ?thesis .
qed

text \<open>
  C10. Every context that \<open>scan_project\<close> returns has only issues of the types
  \<open>empty_file\<close>, \<open>missing_import\<close>, \<open>orphan_file\<close> and \<open>duplicate_definition\<close>, so none of
  the type \<open>circular_import\<close>: the scan never calls the cycle detector. A Python file that
  does not parse is kept in the context, with the syntax error as the one entry of its list
  of errors, and gives no issue of its own.
\<close>

theorem scan_project_issue_types:
  assumes "scan_project env actual_root entries = Inr ctx"
  shows "(\<forall>i \<in> set (issues ctx).
            issue_type i \<in> {''empty_file'', ''missing_import'', ''orphan_file'',
                              ''duplicate_definition''}
            \<and> issue_type i \<noteq> ''circular_import'')
       \<and> (\<forall>(p, info) \<in> set (files ctx). \<forall>msg.
            fi_language info = ''python'' \<and> ast_walk env (fi_content info) = Inl msg
            \<longrightarrow> fi_errors info = [''Syntax error: '' @ msg])"
proof -
  obtain is0 fs0 where f: "fold (scan_entry env) entries ([], []) = (is0, fs0)"
    by (cases "fold (scan_entry env) entries ([], [])") auto
  define c1 where "c1 = \<lparr> base_dir = actual_root, files = fs0, issues = is0,
    dependency_graph = build_dependency_graph \<lparr> base_dir = actual_root, files = fs0,
      issues = is0, dependency_graph = [] \<rparr> \<rparr>"
  from assms f obtain new_issues where v: "validate_cross_references c1 = Inr new_issues"
      and ctx: "ctx = c1\<lparr> issues := is0 @ new_issues \<rparr>"
    by (auto simp: scan_project_def Let_def c1_def split: sum.splits)
  from fold_scan_entry_inv[OF f] have
    e: "list_all (\<lambda>i. issue_type i = ''empty_file'') is0" and a: "list_all (analyzed env) fs0"
    by auto
  from validate_cross_references_types[OF v] e have
    "\<forall>i \<in> set (issues ctx).
            issue_type i \<in> {''empty_file'', ''missing_import'', ''orphan_file'',
                              ''duplicate_definition''}"
    by (auto simp: ctx list_all_iff)
  moreover have "\<forall>(p, info) \<in> set (files ctx). \<forall>msg.
            fi_language info = ''python'' \<and> ast_walk env (fi_content info) = Inl msg
            \<longrightarrow> fi_errors info = [''Syntax error: '' @ msg]"
    using a analyzed_syntax_error[of env] by (auto simp: ctx c1_def list_all_iff)
  ultimately show ?thesis by auto
qed

theorem scan_project_issue_types_witness:
  "scan_project sample_env ''/proj'' more_entries = Inr more_ctx
   \<and> map issue_type (issues more_ctx) = [''empty_file'', ''orphan_file'', ''orphan_file'']
   \<and> list_all (\<lambda>i. issue_type i \<in> {''empty_file'', ''missing_import'', ''orphan_file'',
                                        ''duplicate_definition''}
                     \<and> issue_type i \<noteq> ''circular_import'') (issues more_ctx)
   \<and> map (fi_errors \<circ> snd) (files more_ctx)
       = [[], [], [''Syntax error: invalid syntax (<unknown>, line 1)'']]"
proof -
  from scan_project_issue_types [OF more_scan]
  have "list_all (\<lambda>i. issue_type i \<in> {''empty_file'', ''missing_import'', ''orphan_file'',
                                        ''duplicate_definition''}
                     \<and> issue_type i \<noteq> ''circular_import'') (issues more_ctx)"
    by (simp add: list_all_iff)
  moreover have "map issue_type (issues more_ctx) = [''empty_file'', ''orphan_file'', ''orphan_file'']"
    by (simp add: more_ctx_def empty_file_issue_def orphan_issue_def)
  moreover have "map (fi_errors \<circ> snd) (files more_ctx)
       = [[], [], [''Syntax error: invalid syntax (<unknown>, line 1)'']]"
    by (simp add: more_ctx_def more_files_def two_file_files_def)
  ultimately show ?thesis using more_scan by simp
qed

section \<open>An import of a module that has no file\<close>

text \<open>
  For a Python file the check of an import is gated by \<open>is_local_python_import\<close>, which
  asks for \<open>top.py\<close>, \<open>top/__init__.py\<close> or a file below \<open>top/\<close>; \<open>resolve_python_import\<close>
  asks the same three questions for the first segment of the import. An import that passes
  the gate therefore resolves, and the branch that reports a missing import is never taken
  for an import that does not start with a dot.
\<close>

lemma python_missing_import_unreachable:
  assumes "map_of (files ctx) fpath = Some info"
      and "fi_language info = ''python''"
      and "\<not> startswith imp ''.''"
  shows "snd (snd (check_import ctx fpath info imp (checked, seen, acc))) = acc"
proof (cases "is_local_import imp ''python'' ctx")
  case True
  then have "is_local_python_import imp ctx" by (simp add: is_local_import_def)
  from python_local_resolves[OF this assms(3)] assms(1,2)
  have "resolve_import imp fpath ctx \<noteq> None" by (simp add: resolve_import_def)
  with assms(2) show ?thesis by (auto simp: check_import_def Let_def)
next
  case False
  with assms(2) show ?thesis by (simp add: check_import_def Let_def)
qed

text \<open>
  C4. The scan of a project of two files, \<open>main.py\<close> with \<open>from utils import helper\<close> and
  \<open>helpers.py\<close>, where no \<open>utils.py\<close> exists: it returns, \<open>main.py\<close> has the imports
  \<open>utils\<close> and \<open>utils.helper\<close>, and the only issue is an \<open>orphan_file\<close> warning for
  \<open>helpers.py\<close>. There is no \<open>missing_import\<close> issue for \<open>main.py\<close>, where the claim expects
  exactly one.
\<close>

theorem scan_two_files_reports_no_missing_import:
  "\<not> isl (scan_project sample_env ''/proj'' two_file_entries)
   \<and> fi_imports (the (map_of (files (projr (scan_project sample_env ''/proj'' two_file_entries)))
                            ''main.py'')) = [''utils'', ''utils.helper'']
   \<and> length (filter (reports_missing_import ''main.py'')
               (issues (projr (scan_project sample_env ''/proj'' two_file_entries)))) = 0
   \<and> map issue_type (issues (projr (scan_project sample_env ''/proj'' two_file_entries)))
       = [''orphan_file'']"
  by (simp add: two_file_scan two_file_ctx_def two_file_files_def reports_missing_import_def orphan_issue_def)


section \<open>Sanitizing twice\<close>

text \<open>
  C6. Sanitizing is claimed to be total and idempotent. For a file that is not
  documentation, \<open>clean_file_content\<close> fails with \<open>AttributeError\<close> on a text whose first
  line that is not blank opens a fence, the very case the fence handling is written for.
  \<open>clean_code_block\<close> removes one opening fence line only, so a second pass changes a text
  that starts with two of them.
\<close>

theorem clean_file_content_fence_fails:
  "clean_file_content ''```python\<newline>print(1)\<newline>```'' ''main.py'' = Inl AttributeError
   \<and> clean_code_block ''```\<newline>```\<newline>x'' = ''```\<newline>x''
   \<and> clean_code_block (clean_code_block ''```\<newline>```\<newline>x'') = ''x''"
  by (simp add: clean_file_content_def clean_code_block_def is_blank_def is_fence_def strip_def
      lstrip_def rstrip_def isspace_def NL_def path_suffix_def path_name_def
      path_components_def rfind_dot_def lower_def lower_char_def MARKDOWN_EXTENSIONS_def)

section \<open>A missing module: local file or package\<close>

lemma flags_ok_update [simp]:
  "flags_ok (d\<lparr> d_error_type := a \<rparr>) = flags_ok d"
  "flags_ok (d\<lparr> d_root_cause := b \<rparr>) = flags_ok d"
  "flags_ok (d\<lparr> d_affected_files := c \<rparr>) = flags_ok d"
  "flags_ok (d\<lparr> d_missing_module := e \<rparr>) = flags_ok d"
  "flags_ok (d\<lparr> d_import_chain := f \<rparr>) = flags_ok d"
  "flags_ok (d\<lparr> d_fix_guidance := g \<rparr>) = flags_ok d"
  by (simp_all add: flags_ok_def)

lemma flags_ok_leaves [simp]:
  "flags_ok unknown_diagnosis"
  "flags_ok (missing_module_diagnosis fs out missing)"
  "flags_ok (missing_symbol_diagnosis fs symbol module)"
  by (simp_all add: flags_ok_def unknown_diagnosis_def missing_module_diagnosis_def
      missing_symbol_diagnosis_def Let_def)

lemma flags_ok_diagnose: "flags_ok (diagnose_test_error fs out)"
  unfolding diagnose_test_error_def Let_def
  by (simp split: option.split prod.split)

lemma requests_error_line: "find_error_line (split_on NL (strip (no_module_named ''requests''))) = no_module_named ''requests''"
  by (simp add: no_module_named_def SQ_def strip_def lstrip_def rstrip_def isspace_def NL_def find_error_line_def ERROR_PREFIXES_def)

lemma requests_module_name: "search_module_name (no_module_named ''requests'') = Some ''requests''"
  by (simp add: no_module_named_def SQ_def quoted_def lazy_quoted_def is_quote_def NL_def)

lemma src_utils_error_line: "find_error_line (split_on NL (strip (no_module_named ''src.utils''))) = no_module_named ''src.utils''"
  by (simp add: no_module_named_def SQ_def strip_def lstrip_def rstrip_def isspace_def NL_def find_error_line_def ERROR_PREFIXES_def)

lemma src_utils_module_name: "search_module_name (no_module_named ''src.utils'') = Some ''src.utils''"
  by (simp add: no_module_named_def SQ_def quoted_def lazy_quoted_def is_quote_def NL_def)

lemma no_module_named_nonempty: "no_module_named n \<noteq> []" by (simp add: no_module_named_def)

lemma diagnose_requests: "diagnose_test_error fs (no_module_named ''requests'') =
   missing_module_diagnosis fs (no_module_named ''requests'') ''requests''"
  by (simp add: diagnose_test_error_def requests_error_line requests_module_name no_module_named_nonempty)

lemma diagnose_src_utils: "diagnose_test_error fs (no_module_named ''src.utils'') =
   missing_module_diagnosis fs (no_module_named ''src.utils'') ''src.utils''"
  by (simp add: diagnose_test_error_def src_utils_error_line src_utils_module_name no_module_named_nonempty)

text \<open>
  C8. For the output \<open>ModuleNotFoundError: No module named 'requests'\<close>, when the working
  directory has no \<open>requests.py\<close> and no directory \<open>requests\<close>, neither at its top nor below
  \<open>src\<close>, \<open>lib\<close> or \<open>app\<close>, the diagnosis sets \<open>is_pip_package\<close> and not \<open>is_local_import\<close>.
  For \<open>ModuleNotFoundError: No module named 'src.utils'\<close>, when \<open>src/utils.py\<close> exists (so
  that \<open>src\<close> is a directory), it sets \<open>is_local_import\<close> and not \<open>is_pip_package\<close>. For
  every output and every file system the two flags are not both set.
\<close>

theorem missing_module_local_or_pip:
  "(\<not> is_file fs ''requests.py'' \<and> \<not> is_dir fs ''requests''
      \<and> \<not> is_file fs ''src/requests.py'' \<and> \<not> is_dir fs ''src/requests''
      \<and> \<not> is_file fs ''lib/requests.py'' \<and> \<not> is_file fs ''app/requests.py''
    \<longrightarrow> d_is_pip_package (diagnose_test_error fs (no_module_named ''requests''))
        \<and> \<not> d_is_local_import (diagnose_test_error fs (no_module_named ''requests'')))
   \<and> (is_file fs ''src/utils.py'' \<and> is_dir fs ''src''
    \<longrightarrow> d_is_local_import (diagnose_test_error fs (no_module_named ''src.utils''))
        \<and> \<not> d_is_pip_package (diagnose_test_error fs (no_module_named ''src.utils'')))
   \<and> \<not> (d_is_local_import (diagnose_test_error fs2 out)
          \<and> d_is_pip_package (diagnose_test_error fs2 out))"
proof -
  have "\<not> (d_is_local_import (diagnose_test_error fs2 out)
          \<and> d_is_pip_package (diagnose_test_error fs2 out))"
    using flags_ok_diagnose[of fs2 out] by (simp add: flags_ok_def)
  moreover have "\<not> is_file fs ''requests.py'' \<and> \<not> is_dir fs ''requests''
      \<and> \<not> is_file fs ''src/requests.py'' \<and> \<not> is_dir fs ''src/requests''
      \<and> \<not> is_file fs ''lib/requests.py'' \<and> \<not> is_file fs ''app/requests.py''
    \<longrightarrow> d_is_pip_package (diagnose_test_error fs (no_module_named ''requests''))
        \<and> \<not> d_is_local_import (diagnose_test_error fs (no_module_named ''requests''))"
    by (simp add: diagnose_requests missing_module_diagnosis_def local_indicators_def
        LOCAL_MODULE_NAMES_def Let_def)
  moreover have "is_file fs ''src/utils.py'' \<and> is_dir fs ''src''
    \<longrightarrow> d_is_local_import (diagnose_test_error fs (no_module_named ''src.utils''))
        \<and> \<not> d_is_pip_package (diagnose_test_error fs (no_module_named ''src.utils''))"
    by (simp add: diagnose_src_utils missing_module_diagnosis_def local_indicators_def Let_def)
  ultimately show ?thesis by blast
qed

theorem missing_module_local_or_pip_witness:
  "d_is_pip_package (diagnose_test_error sample_fs (no_module_named ''requests''))
   \<and> \<not> d_is_local_import (diagnose_test_error sample_fs (no_module_named ''requests''))
   \<and> d_is_local_import (diagnose_test_error sample_fs (no_module_named ''src.utils''))
   \<and> \<not> d_is_pip_package (diagnose_test_error sample_fs (no_module_named ''src.utils''))"
  using missing_module_local_or_pip [of sample_fs sample_fs "no_module_named ''requests''"]
  by (simp add: sample_fs_def)


section \<open>Lists of different lengths in a test failure\<close>

lemma list_failure_no_error_line:
  "find_error_line (split_on NL (strip list_failure_output)) = []"
  by (simp add: list_failure_output_def strip_def lstrip_def rstrip_def isspace_def NL_def
      find_error_line_def ERROR_PREFIXES_def)

lemma list_failure_signature:
  "search_additional list_failure_output = Some ''2''"
  "contains list_failure_output ''First extra element''"
  by (simp_all add: list_failure_output_def isdigit_def contains_def)

lemma name_error_line:
  "find_error_line (split_on NL (strip name_error_output)) = ''NameError: x''"
  by (simp add: name_error_output_def list_failure_output_def strip_def lstrip_def rstrip_def
      isspace_def NL_def find_error_line_def ERROR_PREFIXES_def)

lemma name_error_signature:
  "has_match (search_additional name_error_output)"
  by (simp add: name_error_output_def list_failure_output_def isdigit_def has_match_def)

lemma name_error_searches:
  "search_module_name ''NameError: x'' = None"
  "search_import_name ''NameError: x'' = None"
  "\<not> contains ''NameError: x'' ''SyntaxError''"
  "\<not> contains ''NameError: x'' ''IndentationError''"
  by (simp_all add: contains_def)

text \<open>
  C7. The output of a failed list comparison holds the signature \<open>First list contains 2
  additional elements\<close> (and \<open>First extra element\<close> too), but no line of it starts with one of the
  six error names that \<open>diagnose_test_error\<close> looks for first; the function returns at
  \<open>if not error_line\<close> with the type \<open>unknown\<close> and an empty guidance, before the detector
  of \<open>shared_file_state\<close> is reached. After a line that starts with \<open>NameError:\<close> the same
  output is classified as \<open>shared_file_state\<close>.
\<close>

theorem list_mismatch_not_classified:
  "search_additional list_failure_output = Some ''2''
   \<and> diagnose_test_error fs list_failure_output = unknown_diagnosis
   \<and> d_error_type (diagnose_test_error fs list_failure_output) = ''unknown''
   \<and> d_fix_guidance (diagnose_test_error fs list_failure_output) = []
   \<and> d_error_type (diagnose_test_error fs name_error_output) = ''shared_file_state''"
proof -
  have u: "diagnose_test_error fs list_failure_output = unknown_diagnosis"
    by (simp add: diagnose_test_error_def list_failure_no_error_line)
  have "d_error_type (diagnose_test_error fs name_error_output) = ''shared_file_state''"
    unfolding diagnose_test_error_def Let_def name_error_line
    by (simp add: name_error_searches name_error_signature)
  with u list_failure_signature(1) show ?thesis by (simp add: unknown_diagnosis_def)
qed

end
